theory Spec2Isabelle
  imports Complex_Main "HOL-Library.AList" "HOL-Library.Multiset"
    "HOL-Library.Product_Lexorder"
begin

section \<open>Values, dictionaries and exceptions\<close>

text \<open>
  The Lasair query manager (\<^verbatim>\<open>aas2rto/query_managers/lasair.py\<close>) works on JSON-decoded
  alerts and lightcurve rows: Python dictionaries from field names to scalars. A scalar
  is a \<open>val\<close>; \<open>VNone\<close> is Python's \<^verbatim>\<open>None\<close> and also the null cell (NaN) of a
  pandas table. A float carries the rational number it denotes.
\<close>

datatype val = VNone | VBool bool | VInt int | VFloat rat | VStr string

text \<open>Python's truth value of a scalar, as \<^verbatim>\<open>if row.get("candid")\<close> tests it.\<close>

fun truthy :: "val \<Rightarrow> bool" where
  "truthy VNone = False"
| "truthy (VBool b) = b"
| "truthy (VInt n) = (n \<noteq> 0)"
| "truthy (VFloat x) = (x \<noteq> 0)"
| "truthy (VStr s) = (s \<noteq> [])"

text \<open>
  A dictionary keeps its keys in insertion order: an association list with distinct
  keys. \<open>py_get d k\<close> is \<^verbatim>\<open>d.get(k)\<close> (and \<^verbatim>\<open>d.get(k, None)\<close>), \<open>py_item d k\<close> is
  \<^verbatim>\<open>d[k]\<close>, which raises \<^verbatim>\<open>KeyError\<close> on a missing key, \<open>py_setitem k v d\<close> is
  \<^verbatim>\<open>d[k] = v\<close>, and \<open>py_in k d\<close> is \<^verbatim>\<open>k in d\<close>.
\<close>

type_synonym pydict = "(string \<times> val) list"

datatype exn =
    ValueError
  | KeyError string
  | MissingObjectIdError
  | UnboundLocalError
  | EmptyDataError
  | ParserError
  | AssertionError
  | OtherException string
  | KeyboardInterrupt

text \<open>
  What \<^verbatim>\<open>except Exception\<close> catches: every exception of the model but
  \<^verbatim>\<open>KeyboardInterrupt\<close>, which derives from \<^verbatim>\<open>BaseException\<close> only.
\<close>

fun is_Exception :: "exn \<Rightarrow> bool" where
  "is_Exception KeyboardInterrupt = False"
| "is_Exception e = True"

definition py_get :: "pydict \<Rightarrow> string \<Rightarrow> val" where
  "py_get d k = (case map_of d k of None \<Rightarrow> VNone | Some v \<Rightarrow> v)"

definition py_item :: "pydict \<Rightarrow> string \<Rightarrow> exn + val" where
  "py_item d k = (case map_of d k of None \<Rightarrow> Inl (KeyError k) | Some v \<Rightarrow> Inr v)"

definition py_setitem :: "string \<Rightarrow> val \<Rightarrow> pydict \<Rightarrow> pydict" where
  "py_setitem k v d = AList.update k v d"

definition py_in :: "string \<Rightarrow> pydict \<Rightarrow> bool" where
  "py_in k d = (map_of d k \<noteq> None)"

section \<open>New targets from alerts\<close>

text \<open>
  \<^verbatim>\<open>LasairQueryManager.default_coordinate_guesses\<close>, the field-name pairs tried in order.
\<close>

definition default_coordinate_guesses :: "(string \<times> string) list" where
  "default_coordinate_guesses =
     [(''ramean'', ''decmean''), (''ra'', ''dec''), (''RA'', ''Dec'')]"

text \<open>
  The \<^verbatim>\<open>for racol, deccol in ...\<close> loop of \<^verbatim>\<open>target_from_lasair_alert\<close>. The loop
  variables \<^verbatim>\<open>ra\<close> and \<^verbatim>\<open>dec\<close> are unbound before the first iteration (\<open>None\<close> here),
  are assigned in every iteration, and keep their last values when the loop ends
  without \<^verbatim>\<open>break\<close>.
\<close>

fun guess_coordinates ::
  "(string \<times> string) list \<Rightarrow> pydict \<Rightarrow> (val \<times> val) option \<Rightarrow> (val \<times> val) option" where
  "guess_coordinates [] alert bound = bound"
| "guess_coordinates ((racol, deccol) # guesses) alert bound =
     (let ra = py_get alert racol; dec = py_get alert deccol in
      if ra \<noteq> VNone \<and> dec \<noteq> VNone then Some (ra, dec)
      else guess_coordinates guesses alert (Some (ra, dec)))"

text \<open>
  The call \<^verbatim>\<open>Target(objectId, ra=ra, dec=dec, t_ref=t_ref)\<close> that ends
  \<^verbatim>\<open>target_from_lasair_alert\<close>: the class \<^verbatim>\<open>Target\<close> is imported from
  \<^verbatim>\<open>aas2rto.target\<close>, so the model returns the arguments of the constructor call.
  Logging is not modelled.
\<close>

record new_target =
  nt_objectId :: val
  nt_ra :: val
  nt_dec :: val

definition target_from_lasair_alert :: "pydict \<Rightarrow> exn + new_target" where
  "target_from_lasair_alert alert =
     (let objectId = py_get alert ''objectId'' in
      if objectId = VNone then Inl MissingObjectIdError
      else (case guess_coordinates default_coordinate_guesses alert None of
              None \<Rightarrow> Inl UnboundLocalError
            | Some (ra, dec) \<Rightarrow>
                Inr \<lparr>nt_objectId = objectId, nt_ra = ra, nt_dec = dec\<rparr>))"

text \<open>
  A field-name pair qualifies for an alert when both of its fields are present and not
  null.
\<close>

definition qualifies :: "pydict \<Rightarrow> string \<times> string \<Rightarrow> bool" where
  "qualifies alert p = (py_get alert (fst p) \<noteq> VNone \<and> py_get alert (snd p) \<noteq> VNone)"

section \<open>Tables and the library the manager calls\<close>

text \<open>
  A pandas table is its column names, in order, and its rows; a row is a dictionary and
  a column missing from a row is a null cell. \<open>len_frame\<close> is \<^verbatim>\<open>len(df)\<close>.

  The model keeps every cell as the Python value it was given. pandas stores a column
  under one dtype and converts its cells to it: integers within the int64 range stay as
  they are in an int64 column, but a column with an integer beyond that range, or with
  integers next to floats or null cells, is stored as uint64, float64 or objects, and
  joining a uint64 column to an int64 one gives float64, where close integers collapse.
  The dtypes are not modelled: a statement that reads cells back is made for cells that
  pandas stores as they are (\<open>candids_fit_int64\<close> below for the \<^verbatim>\<open>candid\<close> column).
\<close>

record dataframe =
  columns :: "string list"
  rows :: "pydict list"

definition len_frame :: "dataframe \<Rightarrow> nat" where
  "len_frame df = length (rows df)"

text \<open>Keys in order of first appearance, as \<^verbatim>\<open>pd.DataFrame(list_of_dicts)\<close> orders columns.\<close>

definition first_seen :: "string list \<Rightarrow> string list" where
  "first_seen ks = rev (remdups (rev ks))"

definition DataFrame :: "pydict list \<Rightarrow> dataframe" where
  "DataFrame rs = \<lparr>columns = first_seen (concat (map (map fst) rs)), rows = rs\<rparr>"

text \<open>\<^verbatim>\<open>pd.concat([a, b])\<close>: the rows of \<open>a\<close>, then those of \<open>b\<close>, over the union of columns.\<close>

definition pd_concat :: "dataframe \<Rightarrow> dataframe \<Rightarrow> dataframe" where
  "pd_concat a b =
     \<lparr>columns = first_seen (columns a @ columns b), rows = rows a @ rows b\<rparr>"

text \<open>\<^verbatim>\<open>df[c] = v\<close> for a scalar \<open>v\<close>, and for an array of values (one per row).\<close>

definition add_column :: "string \<Rightarrow> string list \<Rightarrow> string list" where
  "add_column c cs = (if c \<in> set cs then cs else cs @ [c])"

definition set_column :: "string \<Rightarrow> val \<Rightarrow> dataframe \<Rightarrow> dataframe" where
  "set_column c v df =
     \<lparr>columns = add_column c (columns df), rows = map (py_setitem c v) (rows df)\<rparr>"

definition set_column_values :: "string \<Rightarrow> val list \<Rightarrow> dataframe \<Rightarrow> exn + dataframe" where
  "set_column_values c vs df =
     (if length vs \<noteq> length (rows df) then Inl ValueError
      else Inr \<lparr>columns = add_column c (columns df),
                rows = map (\<lambda>(r, v). py_setitem c v r) (zip (rows df) vs)\<rparr>)"

text \<open>\<^verbatim>\<open>df[c]\<close> raises \<^verbatim>\<open>KeyError\<close> when the table has no column \<open>c\<close>.\<close>

definition get_column :: "dataframe \<Rightarrow> string \<Rightarrow> exn + val list" where
  "get_column df c =
     (if c \<in> set (columns df) then Inr (map (\<lambda>r. py_get r c) (rows df))
      else Inl (KeyError c))"

definition dropna :: "val list \<Rightarrow> val list" where
  "dropna vs = filter (\<lambda>v. v \<noteq> VNone) vs"

text \<open>\<^verbatim>\<open>df.empty\<close>: some axis of the table has length 0.\<close>

definition empty_frame :: "dataframe \<Rightarrow> bool" where
  "empty_frame df = (rows df = [] \<or> columns df = [])"

text \<open>
  One item of the list that \<^verbatim>\<open>lasair_client.lightcurves\<close> returns: a dictionary read
  at its keys \<^verbatim>\<open>"objectId"\<close> and \<^verbatim>\<open>"candidates"\<close>; \<open>None\<close> is a missing key.
\<close>

record lc_data =
  lc_objectId :: "val option"
  lc_candidates :: "pydict list option"

datatype time_format = Guess | Mjd | Jd

text \<open>
  What the source calls and does not define: the path methods of
  \<^verbatim>\<open>BaseQueryManager\<close>, astropy's \<^verbatim>\<open>Time\<close>, Python's \<^verbatim>\<open>str\<close>, pandas' sorting and
  CSV reading and writing, numpy's average with the coordinate object of
  \<^verbatim>\<open>Target.update_coordinates\<close>, and the remote service. They are parameters of the
  model. \<open>isot fmt v\<close> is \<^verbatim>\<open>Time(v, format=fmt).isot\<close>, \<open>None\<close> when the
  constructor raises an \<^verbatim>\<open>Exception\<close>; \<open>now_isot\<close> is \<^verbatim>\<open>Time.now().isot\<close>; \<open>jd_to_mjd\<close> is
  \<^verbatim>\<open>Time(values, format="jd").mjd\<close>; \<open>lightcurves k chunk\<close> is the outcome of the
  \<open>k\<close>-th bulk request of a call (from 0) when it asks for \<open>chunk\<close>: the list
  returned, or the exception raised; \<open>average_coords ras decs\<close> is the coordinate built from
  \<^verbatim>\<open>np.average(ras)\<close> and \<^verbatim>\<open>np.average(decs)\<close>, \<open>None\<close> when that raises an
  \<^verbatim>\<open>Exception\<close>.
\<close>

record ('f, 'c) lib =
  get_lightcurve_file :: "val \<Rightarrow> string"
  get_alert_file :: "val \<Rightarrow> val \<Rightarrow> string"
  isot :: "time_format \<Rightarrow> val \<Rightarrow> val option"
  now_isot :: val
  py_str :: "val \<Rightarrow> string"
  jd_to_mjd :: "val list \<Rightarrow> exn + val list"
  sort_values :: "string \<Rightarrow> pydict list \<Rightarrow> pydict list"
  to_csv :: "dataframe \<Rightarrow> 'f"
  read_csv :: "'f \<Rightarrow> exn + dataframe"
  lightcurves :: "nat \<Rightarrow> val list \<Rightarrow> exn + lc_data list"
  average_coords :: "val list \<Rightarrow> val list \<Rightarrow> 'c option"

section \<open>Processing alerts\<close>

text \<open>
  \<^verbatim>\<open>_get_alert_timestamp\<close>: the first of the fields \<^verbatim>\<open>timestamp\<close>, \<^verbatim>\<open>UTC\<close>,
  \<^verbatim>\<open>mjdmax\<close>, \<^verbatim>\<open>jdmax\<close> that the alert has decides the time; the reference time
  stands in when there is none or when building the time raises. The result is the
  ISO string. \<^verbatim>\<open>alert["objectId"]\<close> is read first and raises on a missing key.
\<close>

definition get_alert_timestamp :: "('f, 'c) lib \<Rightarrow> pydict \<Rightarrow> exn + val" where
  "get_alert_timestamp L alert =
     (case py_item alert ''objectId'' of
        Inl e \<Rightarrow> Inl e
      | Inr objectId \<Rightarrow>
          (let t_ref = now_isot L;
               attempt =
                 (if py_in ''timestamp'' alert then isot L Guess (py_get alert ''timestamp'')
                  else if py_in ''UTC'' alert then isot L Guess (py_get alert ''UTC'')
                  else if py_in ''mjdmax'' alert then isot L Mjd (py_get alert ''mjdmax'')
                  else if py_in ''jdmax'' alert then isot L Jd (py_get alert ''jdmax'')
                  else Some t_ref)
           in Inr (case attempt of None \<Rightarrow> t_ref | Some timestamp \<Rightarrow> timestamp)))"

text \<open>
  \<^verbatim>\<open>process_alerts\<close>: the alert files are a map from path to the dictionary dumped
  there. The result pairs the files as the call leaves them with what the call returns
  or raises; an exception leaves the files of the alerts before it written.
\<close>

fun process_alerts ::
  "('f, 'c) lib \<Rightarrow> bool \<Rightarrow> pydict list \<Rightarrow> (string \<rightharpoonup> pydict)
     \<Rightarrow> (string \<rightharpoonup> pydict) \<times> (exn + pydict list)" where
  "process_alerts L save_alerts [] files = (files, Inr [])"
| "process_alerts L save_alerts (alert # alerts) files =
     (let objectId = py_get alert ''objectId'' in
      case get_alert_timestamp L alert of
        Inl e \<Rightarrow> (files, Inl e)
      | Inr timestamp \<Rightarrow>
          (let alert1 = py_setitem ''alert_timestamp'' timestamp alert in
           if save_alerts then
             (case py_item alert1 ''candid'' of
                Inl e \<Rightarrow> (files, Inl e)
              | Inr candid \<Rightarrow>
                  (case process_alerts L save_alerts alerts
                          (files(get_alert_file L objectId candid \<mapsto> alert1)) of
                     (files', Inl e) \<Rightarrow> (files', Inl e)
                   | (files', Inr done) \<Rightarrow> (files', Inr (alert1 # done))))
           else
             (case process_alerts L save_alerts alerts files of
                (files', Inl e) \<Rightarrow> (files', Inl e)
              | (files', Inr done) \<Rightarrow> (files', Inr (alert1 # done)))))"

section \<open>Processing a lightcurve\<close>

text \<open>
  The two loops of \<^verbatim>\<open>process_lasair_lightcurve\<close> over the detections and the
  non-detections: a detection keeps its \<^verbatim>\<open>candid\<close>, every non-detection is given
  \<^verbatim>\<open>candid = -1\<close>.
\<close>

definition mark_detection :: "('f, 'c) lib \<Rightarrow> pydict \<Rightarrow> pydict" where
  "mark_detection L r =
     py_setitem ''tag'' (VStr ''valid'')
       (py_setitem ''candid_str'' (VStr (py_str L (py_get r ''candid''))) r)"

definition mark_non_detection :: "pydict \<Rightarrow> pydict" where
  "mark_non_detection r =
     py_setitem ''tag'' (VStr ''upperlim'')
       (py_setitem ''candid_str'' (VStr ''-1'')
          (py_setitem ''candid'' (VInt (- 1)) r))"

text \<open>\<^verbatim>\<open>df.sort_values(c, inplace=True)\<close> reorders the rows; the column is there at both calls.\<close>

definition sort_frame :: "('f, 'c) lib \<Rightarrow> string \<Rightarrow> dataframe \<Rightarrow> dataframe" where
  "sort_frame L c df = df\<lparr>rows := sort_values L c (rows df)\<rparr>"

definition process_lasair_lightcurve :: "('f, 'c) lib \<Rightarrow> lc_data \<Rightarrow> exn + dataframe" where
  "process_lasair_lightcurve L lc =
     (case lc_objectId lc of
        None \<Rightarrow> Inl (KeyError ''objectId'')
      | Some objectId \<Rightarrow>
          (case lc_candidates lc of
             None \<Rightarrow> Inl (KeyError ''candidates'')
           | Some candidates \<Rightarrow>
               (let det = filter (\<lambda>row. truthy (py_get row ''candid'')) candidates;
                    non_det = filter (\<lambda>r. \<not> truthy (py_get r ''candid'')) candidates
                in
                if length det + length non_det \<noteq> length candidates then Inl AssertionError
                else if list_ex (\<lambda>r. truthy (py_get r ''candid'')) non_det
                then Inl AssertionError
                else
                  (let detections = DataFrame (map (mark_detection L) det);
                       non_detections = DataFrame (map mark_non_detection non_det);
                       lightcurve =
                         set_column ''objectId'' objectId
                           (pd_concat detections non_detections)
                   in
                   if empty_frame lightcurve then
                     Inr (sort_frame L ''jd''
                            (set_column ''mjd'' (VInt 0)
                               (set_column ''jd'' (VInt 0) lightcurve)))
                   else
                     (case get_column lightcurve ''jd'' of
                        Inl e \<Rightarrow> Inl e
                      | Inr jd \<Rightarrow>
                          (case jd_to_mjd L jd of
                             Inl e \<Rightarrow> Inl e
                           | Inr mjd \<Rightarrow>
                               (case set_column_values ''mjd'' mjd lightcurve of
                                  Inl e \<Rightarrow> Inl e
                                | Inr lightcurve1 \<Rightarrow>
                                    Inr (sort_frame L ''jd'' lightcurve1))))))))"






section \<open>Bulk lightcurve queries\<close>

text \<open>
  Modelled from the spec: \<^verbatim>\<open>utils.chunk_list\<close> is imported from \<^verbatim>\<open>aas2rto.utils\<close>,
  which is not among the sources. The spec has it partition the ids "into ordered
  fixed-size chunks". No fixed-size chunking has size 0: the model yields no chunk
  there, and the theorems on chunking take a positive size.
\<close>

function chunk_list :: "'a list \<Rightarrow> nat \<Rightarrow> 'a list list" where
  "chunk_list l chunk_size =
     (if l = [] \<or> chunk_size = 0 then []
      else take chunk_size l # chunk_list (drop chunk_size l) chunk_size)"
  by pat_completeness auto
termination
  by (relation "measure (\<lambda>(l, chunk_size). length l)") auto

declare chunk_list.simps [simp del]

text \<open>
  The fields of the manager that \<^verbatim>\<open>perform_lightcurve_queries\<close> reads:
  \<^verbatim>\<open>self.client_token\<close> and \<^verbatim>\<open>self.query_parameters["max_failed_queries"]\<close>.
\<close>

record manager =
  client_token :: "string option"
  max_failed_queries :: int

text \<open>
  The state of one call: the lists \<^verbatim>\<open>success\<close> and \<^verbatim>\<open>failed\<close>, the lightcurve
  files, and the chunks sent to the remote service so far, in order.
\<close>

record 'f query_state =
  success :: "val list"
  failed :: "val list"
  lc_files :: "string \<rightharpoonup> 'f"
  requests :: "val list list"

text \<open>
  The inner loop \<^verbatim>\<open>for lc_data in lc_data_chunk\<close>. It is outside the \<^verbatim>\<open>try\<close>: what
  it raises leaves the call.
\<close>

fun store_lightcurves ::
  "('f, 'c) lib \<Rightarrow> lc_data list \<Rightarrow> 'f query_state \<Rightarrow> exn + 'f query_state" where
  "store_lightcurves L [] st = Inr st"
| "store_lightcurves L (lc_data # lc_data_chunk) st =
     (case lc_objectId lc_data of
        None \<Rightarrow> Inl (KeyError ''objectId'')
      | Some objectId \<Rightarrow>
          (case process_lasair_lightcurve L lc_data of
             Inl e \<Rightarrow> Inl e
           | Inr lightcurve \<Rightarrow>
               store_lightcurves L lc_data_chunk
                 (st\<lparr>lc_files :=
                       (lc_files st)(get_lightcurve_file L objectId \<mapsto> to_csv L lightcurve),
                     success := success st @ [objectId]\<rparr>)))"

text \<open>
  The loop over the chunks. The test of the failure count comes first in every
  iteration and ends the loop (\<^verbatim>\<open>break\<close>); a request that raises an \<^verbatim>\<open>Exception\<close>
  puts its whole chunk on \<^verbatim>\<open>failed\<close> (\<^verbatim>\<open>continue\<close>), and what \<^verbatim>\<open>except Exception\<close>
  does not catch leaves the call. Logging and timing are not modelled, and building
  the client and writing a file are taken not to raise.
\<close>

fun query_chunks ::
  "('f, 'c) lib \<Rightarrow> int \<Rightarrow> val list list \<Rightarrow> 'f query_state \<Rightarrow> exn + 'f query_state" where
  "query_chunks L F [] st = Inr st"
| "query_chunks L F (objectId_chunk # chunks) st =
     (if int (length (failed st)) > F then Inr st
      else
        (let st1 = st\<lparr>requests := requests st @ [objectId_chunk]\<rparr> in
         case lightcurves L (length (requests st)) objectId_chunk of
           Inl e \<Rightarrow>
             if is_Exception e
             then query_chunks L F chunks (st1\<lparr>failed := failed st1 @ objectId_chunk\<rparr>)
             else Inl e
         | Inr lc_data_chunk \<Rightarrow>
             (case store_lightcurves L lc_data_chunk st1 of
                Inl e \<Rightarrow> Inl e
              | Inr st2 \<Rightarrow> query_chunks L F chunks st2)))"

definition initial_state :: "(string \<rightharpoonup> 'f) \<Rightarrow> 'f query_state" where
  "initial_state files = \<lparr>success = [], failed = [], lc_files = files, requests = []\<rparr>"

text \<open>
  \<^verbatim>\<open>perform_lightcurve_queries\<close> returns \<^verbatim>\<open>(success, failed)\<close>: the first two fields of
  the final state.
\<close>

definition perform_lightcurve_queries ::
  "('f, 'c) lib \<Rightarrow> manager \<Rightarrow> (string \<rightharpoonup> 'f) \<Rightarrow> val list \<Rightarrow> nat
     \<Rightarrow> exn + 'f query_state" where
  "perform_lightcurve_queries L self files objectId_list chunk_size =
     (if client_token self = None then Inl ValueError
      else query_chunks L (max_failed_queries self)
             (chunk_list objectId_list chunk_size) (initial_state files))"

text \<open>
  Every item the remote service returns is processed without an exception (it has its
  \<^verbatim>\<open>objectId\<close> and \<^verbatim>\<open>candidates\<close>, and its rows their \<^verbatim>\<open>jd\<close>).
\<close>

definition answers_processed :: "('f, 'c) lib \<Rightarrow> bool" where
  "answers_processed L =
     (\<forall>k chunk lcs. lightcurves L k chunk = Inr lcs \<longrightarrow>
        (\<forall>lc \<in> set lcs. \<not> isl (process_lasair_lightcurve L lc)))"

text \<open>Whatever a request raises is an \<^verbatim>\<open>Exception\<close>.\<close>

definition raises_exceptions :: "('f, 'c) lib \<Rightarrow> bool" where
  "raises_exceptions L = (\<forall>k chunk e. lightcurves L k chunk = Inl e \<longrightarrow> is_Exception e)"

text \<open>
  The remote service answers within the request: every item it returns for a chunk
  carries an id of that chunk.
\<close>

definition answers_within :: "('f, 'c) lib \<Rightarrow> bool" where
  "answers_within L =
     (\<forall>k chunk lcs. lightcurves L k chunk = Inr lcs \<longrightarrow>
        (\<forall>lc \<in> set lcs. \<forall>objectId. lc_objectId lc = Some objectId \<longrightarrow> objectId \<in> set chunk))"

text \<open>
  The two lists as the claims describe them, for chunks requested in order from request
  number \<open>k\<close> on: the chunks whose request raises, one after the other, and the ids of
  the items that the answered requests return.
\<close>

fun failed_chunks :: "('f, 'c) lib \<Rightarrow> nat \<Rightarrow> val list list \<Rightarrow> val list" where
  "failed_chunks L k [] = []"
| "failed_chunks L k (chunk # chunks) =
     (case lightcurves L k chunk of Inl e \<Rightarrow> chunk | Inr lcs \<Rightarrow> [])
       @ failed_chunks L (Suc k) chunks"

fun answered_ids :: "('f, 'c) lib \<Rightarrow> nat \<Rightarrow> val list list \<Rightarrow> val list" where
  "answered_ids L k [] = []"
| "answered_ids L k (chunk # chunks) =
     (case lightcurves L k chunk of Inl e \<Rightarrow> [] | Inr lcs \<Rightarrow> List.map_filter lc_objectId lcs)
       @ answered_ids L (Suc k) chunks"

section \<open>Loading lightcurves into the targets\<close>

text \<open>
  \<^verbatim>\<open>load_single_lightcurve\<close>: no file gives \<^verbatim>\<open>None\<close>; of what \<^verbatim>\<open>pd.read_csv\<close>
  raises, the \<^verbatim>\<open>except\<close> clause catches \<^verbatim>\<open>pd.errors.EmptyDataError\<close> alone.
\<close>

definition load_single_lightcurve ::
  "('f, 'c) lib \<Rightarrow> (string \<rightharpoonup> 'f) \<Rightarrow> val \<Rightarrow> exn + dataframe option" where
  "load_single_lightcurve L files objectId =
     (case files (get_lightcurve_file L objectId) of
        None \<Rightarrow> Inr None
      | Some file \<Rightarrow>
          (case read_csv L file of
             Inl e \<Rightarrow> (if e = EmptyDataError then Inr None else Inl e)
           | Inr lightcurve \<Rightarrow> Inr (Some lightcurve)))"

text \<open>
  Modelled from the spec: the classes \<^verbatim>\<open>Target\<close> and \<^verbatim>\<open>TargetData\<close> are imported
  from \<^verbatim>\<open>aas2rto.target\<close>, which is not among the sources. The spec's tracked object
  holds optional coordinates, an \<^verbatim>\<open>updated\<close> flag and, per broker, a lightcurve table;
  \<open>lasair_lightcurve\<close> is \<^verbatim>\<open>target.get_target_data("lasair").lightcurve\<close>.
\<close>

record 'c target =
  coord :: "'c option"
  updated :: bool
  lasair_lightcurve :: "dataframe option"

text \<open>
  Modelled from the spec: \<^verbatim>\<open>TargetData.add_lightcurve\<close> is not among the sources; the
  spec's \<^verbatim>\<open>addLightcurve(rows)\<close> installs the rows as the broker's lightcurve.
\<close>

definition add_lightcurve :: "dataframe \<Rightarrow> 'c target \<Rightarrow> 'c target" where
  "add_lightcurve lightcurve t = t\<lparr>lasair_lightcurve := Some lightcurve\<rparr>"

text \<open>
  Modelled from the spec: \<^verbatim>\<open>Target.update_coordinates\<close> is not among the sources; the
  spec's backfill installs the averaged coordinates on the object "on success".
\<close>

definition update_coordinates :: "'c \<Rightarrow> 'c target \<Rightarrow> 'c target" where
  "update_coordinates c t = t\<lparr>coord := Some c\<rparr>"

text \<open>
  The block \<^verbatim>\<open>if target.coord is None: ...\<close> of \<^verbatim>\<open>load_target_lightcurves\<close>. The two
  column reads come before the \<^verbatim>\<open>try\<close>; the averages and the update are inside it.
\<close>

definition backfill_coordinates ::
  "('f, 'c) lib \<Rightarrow> dataframe \<Rightarrow> 'c target \<Rightarrow> exn + 'c target" where
  "backfill_coordinates L lightcurve t =
     (if coord t = None then
        (case get_column lightcurve ''ra'' of
           Inl e \<Rightarrow> Inl e
         | Inr ra_col \<Rightarrow>
             (case get_column lightcurve ''dec'' of
                Inl e \<Rightarrow> Inl e
              | Inr dec_col \<Rightarrow>
                  (case average_coords L (dropna ra_col) (dropna dec_col) of
                     None \<Rightarrow> Inr t
                   | Some c \<Rightarrow> Inr (update_coordinates c t))))
      else Inr t)"

text \<open>
  The state of one call of \<^verbatim>\<open>load_target_lightcurves\<close>: the target lookup (a
  dictionary from id to target) and the three lists.
\<close>

record 'c load_state =
  target_lookup :: "(val \<times> 'c target) list"
  loaded :: "val list"
  skipped :: "val list"
  missing :: "val list"

fun load_loop ::
  "('f, 'c) lib \<Rightarrow> (string \<rightharpoonup> 'f) \<Rightarrow> val list \<Rightarrow> 'c load_state \<Rightarrow> exn + 'c load_state" where
  "load_loop L files [] st = Inr st"
| "load_loop L files (objectId # objectId_list) st =
     (case load_single_lightcurve L files objectId of
        Inl e \<Rightarrow> Inl e
      | Inr None \<Rightarrow> load_loop L files objectId_list (st\<lparr>missing := missing st @ [objectId]\<rparr>)
      | Inr (Some lightcurve) \<Rightarrow>
          (case map_of (target_lookup st) objectId of
             None \<Rightarrow>
               load_loop L files objectId_list (st\<lparr>missing := missing st @ [objectId]\<rparr>)
           | Some t \<Rightarrow>
               (case (case lasair_lightcurve t of
                        None \<Rightarrow> Some t
                      | Some existing_lightcurve \<Rightarrow>
                          if len_frame lightcurve \<le> len_frame existing_lightcurve then None
                          else Some (t\<lparr>updated := True\<rparr>)) of
                  None \<Rightarrow>
                    load_loop L files objectId_list
                      (st\<lparr>skipped := skipped st @ [objectId]\<rparr>)
                | Some t1 \<Rightarrow>
                    (case backfill_coordinates L lightcurve t1 of
                       Inl e \<Rightarrow> Inl e
                     | Inr t2 \<Rightarrow>
                         load_loop L files objectId_list
                           (st\<lparr>target_lookup :=
                                 AList.update objectId (add_lightcurve lightcurve t2)
                                   (target_lookup st),
                               loaded := loaded st @ [objectId]\<rparr>)))))"

text \<open>
  \<^verbatim>\<open>load_target_lightcurves\<close>: \<open>None\<close> for the id list is the default, all the keys
  of the lookup. The call returns \<^verbatim>\<open>(loaded, missing)\<close>, two fields of the final state.
\<close>

definition load_target_lightcurves ::
  "('f, 'c) lib \<Rightarrow> (string \<rightharpoonup> 'f) \<Rightarrow> (val \<times> 'c target) list \<Rightarrow> val list option
     \<Rightarrow> exn + 'c load_state" where
  "load_target_lightcurves L files lookup objectId_list =
     load_loop L files
       (case objectId_list of None \<Rightarrow> map fst lookup | Some l \<Rightarrow> l)
       \<lparr>target_lookup = lookup, loaded = [], skipped = [], missing = []\<rparr>"

section \<open>An example library\<close>

text \<open>
  One instance of the library, for running the model on concrete inputs. A file holds
  what \<^verbatim>\<open>pd.read_csv\<close> makes of it: a table, or the exception it raises. The remote
  service of \<open>example_lib\<close> answers every id with a lightcurve of no candidates.
\<close>

definition example_path :: "val \<Rightarrow> string" where
  "example_path objectId = (case objectId of VStr s \<Rightarrow> s @ ''.csv'' | _ \<Rightarrow> ''None.csv'')"

definition example_alert_path :: "val \<Rightarrow> val \<Rightarrow> string" where
  "example_alert_path objectId candid =
     (case objectId of VStr s \<Rightarrow> s | _ \<Rightarrow> ''None'') @ ''_'' @
     (case candid of VStr s \<Rightarrow> s | _ \<Rightarrow> ''candid'') @ ''.json''"

text \<open>\<^verbatim>\<open>str\<close> on strings, integers, booleans and \<^verbatim>\<open>None\<close>; a float is not printed.\<close>

function str_nat :: "nat \<Rightarrow> string" where
  "str_nat n =
     (if n < 10 then [''0123456789'' ! n]
      else str_nat (n div 10) @ [''0123456789'' ! (n mod 10)])"
  by pat_completeness auto
termination
  by (relation "measure (\<lambda>n. n)") auto

declare str_nat.simps [simp del]

definition example_str :: "val \<Rightarrow> string" where
  "example_str v =
     (case v of
        VStr s \<Rightarrow> s
      | VNone \<Rightarrow> ''None''
      | VBool b \<Rightarrow> (if b then ''True'' else ''False'')
      | VInt n \<Rightarrow> (if n < 0 then ''-'' @ str_nat (nat (- n)) else str_nat (nat n))
      | VFloat x \<Rightarrow> ''<float>'')"

definition example_mjd :: "val \<Rightarrow> val" where
  "example_mjd v =
     (case v of VFloat x \<Rightarrow> VFloat (x - 4800001 / 2)
              | VInt n \<Rightarrow> VFloat (of_int n - 4800001 / 2)
              | _ \<Rightarrow> VNone)"

definition example_key :: "val \<Rightarrow> bool \<times> rat" where
  "example_key v =
     (case v of VFloat x \<Rightarrow> (False, x) | VInt n \<Rightarrow> (False, of_int n) | _ \<Rightarrow> (True, 0))"

definition example_average :: "val list \<Rightarrow> rat option" where
  "example_average vs =
     (if vs = [] \<or> list_ex (\<lambda>v. case v of VFloat x \<Rightarrow> False | _ \<Rightarrow> True) vs then None
      else Some (sum_list (map (\<lambda>v. case v of VFloat x \<Rightarrow> x | _ \<Rightarrow> 0) vs)
                   / of_nat (length vs)))"

definition example_coords :: "val list \<Rightarrow> val list \<Rightarrow> (rat \<times> rat) option" where
  "example_coords ras decs =
     (case example_average ras of
        None \<Rightarrow> None
      | Some ra \<Rightarrow> (case example_average decs of None \<Rightarrow> None | Some dec \<Rightarrow> Some (ra, dec)))"

definition empty_lightcurve :: "val \<Rightarrow> lc_data" where
  "empty_lightcurve objectId = \<lparr>lc_objectId = Some objectId, lc_candidates = Some []\<rparr>"

definition all_answered :: "nat \<Rightarrow> val list \<Rightarrow> exn + lc_data list" where
  "all_answered k chunk = Inr (map empty_lightcurve chunk)"

definition example_lib :: "(exn + dataframe, rat \<times> rat) lib" where
  "example_lib =
     \<lparr>get_lightcurve_file = example_path,
      get_alert_file = example_alert_path,
      isot = (\<lambda>fmt v. case v of VStr s \<Rightarrow> Some (VStr s) | _ \<Rightarrow> None),
      now_isot = VStr ''2024-01-01T00:00:00.000'',
      py_str = example_str,
      jd_to_mjd = (\<lambda>vs. Inr (map example_mjd vs)),
      sort_values = (\<lambda>c. sort_key (\<lambda>r. example_key (py_get r c))),
      to_csv = Inr,
      read_csv = (\<lambda>file. file),
      lightcurves = all_answered,
      average_coords = example_coords\<rparr>"

text \<open>Other remote services: one whose every request raises, one that answers the
  first request and raises afterwards, one that answers with another object's id, one
  whose items have no \<^verbatim>\<open>objectId\<close>, one whose request is interrupted from the
  keyboard.\<close>

definition all_raise :: "nat \<Rightarrow> val list \<Rightarrow> exn + lc_data list" where
  "all_raise k chunk = Inl (OtherException ''timed out'')"

definition first_answered :: "nat \<Rightarrow> val list \<Rightarrow> exn + lc_data list" where
  "first_answered k chunk =
     (if k = 0 then Inr (map empty_lightcurve chunk) else Inl (OtherException ''timed out''))"

definition answers_other :: "nat \<Rightarrow> val list \<Rightarrow> exn + lc_data list" where
  "answers_other k chunk = Inr [empty_lightcurve (VStr ''ZTF00other'')]"

definition answers_nameless :: "nat \<Rightarrow> val list \<Rightarrow> exn + lc_data list" where
  "answers_nameless k chunk = Inr [\<lparr>lc_objectId = None, lc_candidates = Some []\<rparr>]"

definition interrupted :: "nat \<Rightarrow> val list \<Rightarrow> exn + lc_data list" where
  "interrupted k chunk = Inl KeyboardInterrupt"

definition interrupted_lib :: "(exn + dataframe, rat \<times> rat) lib" where
  "interrupted_lib = example_lib\<lparr>lightcurves := interrupted\<rparr>"

definition nameless_lib :: "(exn + dataframe, rat \<times> rat) lib" where
  "nameless_lib = example_lib\<lparr>lightcurves := answers_nameless\<rparr>"

definition raising_lib :: "(exn + dataframe, rat \<times> rat) lib" where
  "raising_lib = example_lib\<lparr>lightcurves := all_raise\<rparr>"

definition flaky_lib :: "(exn + dataframe, rat \<times> rat) lib" where
  "flaky_lib = example_lib\<lparr>lightcurves := first_answered\<rparr>"

definition wandering_lib :: "(exn + dataframe, rat \<times> rat) lib" where
  "wandering_lib = example_lib\<lparr>lightcurves := answers_other\<rparr>"

text \<open>Example tables, a target with coordinates, and a manager with a token.\<close>

definition example_frame :: "rat list \<Rightarrow> dataframe" where
  "example_frame jds =
     \<lparr>columns = [''jd'', ''ra'', ''dec''],
      rows = map (\<lambda>jd. [(''jd'', VFloat jd), (''ra'', VFloat 10), (''dec'', VFloat 20)]) jds\<rparr>"

definition example_target :: "dataframe option \<Rightarrow> (rat \<times> rat) target" where
  "example_target lc = \<lparr>coord = Some (10, 20), updated = False, lasair_lightcurve = lc\<rparr>"

definition example_manager :: manager where
  "example_manager = \<lparr>client_token = Some ''token'', max_failed_queries = 10\<rparr>"



text \<open>
  The table of a lightcurve without candidates, seven ids, and the state in which a call
  for them ends when the first chunk of three is answered and the second raises, with
  \<^verbatim>\<open>max_failed_queries = 1\<close>.
\<close>

definition empty_table :: dataframe where
  "empty_table = \<lparr>columns = [''objectId'', ''jd'', ''mjd''], rows = []\<rparr>"

definition seven_ids :: "val list" where
  "seven_ids = [VStr ''ZTF1'', VStr ''ZTF2'', VStr ''ZTF3'', VStr ''ZTF4'', VStr ''ZTF5'',
                VStr ''ZTF6'', VStr ''ZTF7'']"

definition breaker_state :: "(exn + dataframe) query_state" where
  "breaker_state =
     \<lparr>success = [VStr ''ZTF1'', VStr ''ZTF2'', VStr ''ZTF3''],
      failed = [VStr ''ZTF4'', VStr ''ZTF5'', VStr ''ZTF6''],
      lc_files = [''ZTF1.csv'' \<mapsto> Inr empty_table, ''ZTF2.csv'' \<mapsto> Inr empty_table,
                  ''ZTF3.csv'' \<mapsto> Inr empty_table],
      requests = [[VStr ''ZTF1'', VStr ''ZTF2'', VStr ''ZTF3''],
                  [VStr ''ZTF4'', VStr ''ZTF5'', VStr ''ZTF6'']]\<rparr>"

section \<open>Dictionaries\<close>


lemma py_in_setitem: "py_in k' (py_setitem k v d) = (k' = k \<or> py_in k' d)"
  by (auto simp: py_in_def py_setitem_def update_conv')

lemma py_item_setitem:
  "py_item (py_setitem k v d) k' = (if k' = k then Inr v else py_item d k')"
  by (simp add: py_item_def py_setitem_def update_conv')

lemma py_item_absent: "\<not> py_in k d \<Longrightarrow> py_item d k = Inl (KeyError k)"
  by (simp add: py_item_def py_in_def)

lemma py_item_present: "py_in k d \<Longrightarrow> py_item d k = Inr (py_get d k)"
  by (auto simp: py_item_def py_in_def py_get_def)

section \<open>Coordinates of a new target\<close>

lemma guess_coordinates_find:
  "guess_coordinates guesses alert bound =
     (case find (qualifies alert) guesses of
        Some p \<Rightarrow> Some (py_get alert (fst p), py_get alert (snd p))
      | None \<Rightarrow>
          if guesses = [] then bound
          else Some (py_get alert (fst (last guesses)), py_get alert (snd (last guesses))))"
  by (induction guesses alert bound rule: guess_coordinates.induct)
     (auto simp: qualifies_def Let_def split: option.splits)

text \<open>
  C7, as amended. For every alert with an \<^verbatim>\<open>objectId\<close>, \<^verbatim>\<open>target_from_lasair_alert\<close>
  builds the target with the ra/dec values of the first pair, in the order
  (ramean, decmean), (ra, dec), (RA, Dec), whose two fields are both present and not
  null. When no pair qualifies it passes on what the alert holds under the last pair,
  RA and Dec: at least one of the two is null, and the other need not be.
\<close>

theorem target_from_lasair_alert_coordinates:
  assumes "py_get alert ''objectId'' \<noteq> VNone"
  shows "\<exists>t. target_from_lasair_alert alert = Inr t
           \<and> nt_objectId t = py_get alert ''objectId''
           \<and> (case find (qualifies alert) default_coordinate_guesses of
                Some p \<Rightarrow> nt_ra t = py_get alert (fst p) \<and> nt_dec t = py_get alert (snd p)
                           \<and> nt_ra t \<noteq> VNone \<and> nt_dec t \<noteq> VNone
              | None \<Rightarrow> nt_ra t = py_get alert ''RA'' \<and> nt_dec t = py_get alert ''Dec''
                           \<and> (nt_ra t = VNone \<or> nt_dec t = VNone))"
proof (cases "find (qualifies alert) default_coordinate_guesses")
  case None
  then have "\<not> qualifies alert (''RA'', ''Dec'')"
    by (auto simp: default_coordinate_guesses_def split: if_splits)
  with None assms show ?thesis
    by (simp add: target_from_lasair_alert_def guess_coordinates_find qualifies_def)
       (simp add: default_coordinate_guesses_def)
next
  case (Some p)
  then have "qualifies alert p"
    by (auto simp: find_Some_iff)
  with Some assms show ?thesis
    by (simp add: target_from_lasair_alert_def guess_coordinates_find qualifies_def)
qed

theorem target_from_lasair_alert_coordinates_witness:
  "py_get [(''objectId'', VStr ''ZTF21abc''), (''ra'', VFloat 10), (''dec'', VFloat 20),
           (''RA'', VFloat 11), (''Dec'', VFloat 21)] ''objectId'' \<noteq> VNone
   \<and> target_from_lasair_alert
       [(''objectId'', VStr ''ZTF21abc''), (''ra'', VFloat 10), (''dec'', VFloat 20),
        (''RA'', VFloat 11), (''Dec'', VFloat 21)]
     = Inr \<lparr>nt_objectId = VStr ''ZTF21abc'', nt_ra = VFloat 10, nt_dec = VFloat 20\<rparr>"
  using target_from_lasair_alert_coordinates
    [of "[(''objectId'', VStr ''ZTF21abc''), (''ra'', VFloat 10), (''dec'', VFloat 20),
          (''RA'', VFloat 11), (''Dec'', VFloat 21)]"]
  by (auto simp: py_get_def default_coordinate_guesses_def qualifies_def)

text \<open>
  C7 as stated fails: an alert with \<^verbatim>\<open>RA\<close> and no \<^verbatim>\<open>Dec\<close> has no qualifying pair, and
  the target is built with ra set and dec null.
\<close>

theorem target_from_lasair_alert_mixture:
  "list_ex (qualifies [(''objectId'', VStr ''ZTF21abc''), (''RA'', VFloat 11)])
     default_coordinate_guesses = False
   \<and> target_from_lasair_alert [(''objectId'', VStr ''ZTF21abc''), (''RA'', VFloat 11)]
     = Inr \<lparr>nt_objectId = VStr ''ZTF21abc'', nt_ra = VFloat 11, nt_dec = VNone\<rparr>"
  by (simp add: target_from_lasair_alert_def default_coordinate_guesses_def qualifies_def
      py_get_def)

section \<open>Alerts without a candidate identifier\<close>

lemma get_alert_timestamp_Inl:
  "get_alert_timestamp L a = Inl e \<Longrightarrow> e = KeyError ''objectId'' \<and> \<not> py_in ''objectId'' a"
  by (auto simp: get_alert_timestamp_def py_item_def py_in_def Let_def split: option.splits)

lemma get_alert_timestamp_Inr:
  "get_alert_timestamp L a = Inr ts \<Longrightarrow> py_in ''objectId'' a"
  by (auto simp: get_alert_timestamp_def py_item_def py_in_def Let_def split: option.splits)

lemma process_alerts_step_no_objectId:
  "get_alert_timestamp L a = Inl e \<Longrightarrow> process_alerts L save (a # rest) files = (files, Inl e)"
  by (simp add: Let_def)

lemma process_alerts_step_no_candid:
  "get_alert_timestamp L a = Inr ts \<Longrightarrow> \<not> py_in ''candid'' a \<Longrightarrow>
     process_alerts L True (a # rest) files = (files, Inl (KeyError ''candid''))"
  by (simp add: Let_def py_item_setitem py_item_absent)

lemma process_alerts_step_saved:
  "get_alert_timestamp L a = Inr ts \<Longrightarrow> py_in ''candid'' a \<Longrightarrow>
     process_alerts L True (a # rest) files =
       (case process_alerts L True rest
               (files(get_alert_file L (py_get a ''objectId'') (py_get a ''candid'')
                        \<mapsto> py_setitem ''alert_timestamp'' ts a)) of
          (files', Inl e) \<Rightarrow> (files', Inl e)
        | (files', Inr done) \<Rightarrow> (files', Inr (py_setitem ''alert_timestamp'' ts a # done)))"
  by (simp add: Let_def py_item_setitem py_item_present)

text \<open>
  C10. With \<^verbatim>\<open>save_alerts\<close> on, an alert without the key \<^verbatim>\<open>candid\<close> makes
  \<^verbatim>\<open>process_alerts\<close> raise a \<^verbatim>\<open>KeyError\<close>, wherever the alert stands in the list, and
  the files are left as the alerts before it left them: the alert is not written under
  any name, nor skipped. When the alerts up to it all have an \<^verbatim>\<open>objectId\<close> and the ones
  before it a \<^verbatim>\<open>candid\<close>, the error is \<^verbatim>\<open>KeyError('candid')\<close>.
\<close>

theorem process_alerts_requires_candid:
  assumes "\<not> py_in ''candid'' alert"
  shows "fst (process_alerts L True (before @ alert # rest) files)
           = fst (process_alerts L True before files)
         \<and> (\<exists>k. snd (process_alerts L True (before @ alert # rest) files) = Inl (KeyError k))
         \<and> ((\<forall>a \<in> set before. py_in ''objectId'' a \<and> py_in ''candid'' a) \<and> py_in ''objectId'' alert
              \<longrightarrow> snd (process_alerts L True (before @ alert # rest) files)
                    = Inl (KeyError ''candid''))"
proof (induction before arbitrary: files)
  case Nil
  show ?case
  proof (cases "get_alert_timestamp L alert")
    case (Inl e)
    from get_alert_timestamp_Inl [OF Inl] process_alerts_step_no_objectId [OF Inl]
    show ?thesis by simp
  next
    case (Inr ts)
    from process_alerts_step_no_candid [OF Inr assms]
    show ?thesis by simp
  qed
next
  case (Cons a before)
  show ?case
  proof (cases "get_alert_timestamp L a")
    case (Inl e)
    from get_alert_timestamp_Inl [OF Inl] process_alerts_step_no_objectId [OF Inl]
    show ?thesis by simp
  next
    case (Inr ts)
    show ?thesis
    proof (cases "py_in ''candid'' a")
      case False
      from process_alerts_step_no_candid [OF Inr False]
      show ?thesis by simp
    next
      case True
      define files' where
        "files' = files(get_alert_file L (py_get a ''objectId'') (py_get a ''candid'')
                          \<mapsto> py_setitem ''alert_timestamp'' ts a)"
      obtain f1 r1 where p1:
        "process_alerts L True (before @ alert # rest) files' = (f1, r1)"
        by (cases "process_alerts L True (before @ alert # rest) files'")
      obtain f2 r2 where p2: "process_alerts L True before files' = (f2, r2)"
        by (cases "process_alerts L True before files'")
      from Cons.IH [of files'] p1 p2 have ih: "f1 = f2" "\<exists>k. r1 = Inl (KeyError k)"
        "(\<forall>a \<in> set before. py_in ''objectId'' a \<and> py_in ''candid'' a) \<and> py_in ''objectId'' alert
           \<longrightarrow> r1 = Inl (KeyError ''candid'')"
        by simp_all
      have s1: "process_alerts L True ((a # before) @ alert # rest) files = (f1, r1)"
        using process_alerts_step_saved [OF Inr True, of "before @ alert # rest" files] p1 ih(2)
        unfolding files'_def by auto
      have s2: "fst (process_alerts L True (a # before) files) = f2"
        using process_alerts_step_saved [OF Inr True, of before files] p2
        unfolding files'_def by (cases r2) auto
      from s1 s2 ih show ?thesis
        by (simp del: process_alerts.simps(2))
    qed
  qed
qed

theorem process_alerts_requires_candid_witness:
  "\<not> py_in ''candid'' [(''objectId'', VStr ''ZTF21xyz'')]
   \<and> py_in ''objectId'' [(''objectId'', VStr ''ZTF21abc''), (''candid'', VStr ''17'')]
   \<and> py_in ''candid'' [(''objectId'', VStr ''ZTF21abc''), (''candid'', VStr ''17'')]
   \<and> py_in ''objectId'' [(''objectId'', VStr ''ZTF21xyz'')]
   \<and> snd (process_alerts example_lib True
          ([[(''objectId'', VStr ''ZTF21abc''), (''candid'', VStr ''17'')]]
             @ [(''objectId'', VStr ''ZTF21xyz'')] # [])
          Map.empty)
       = Inl (KeyError ''candid'')
   \<and> fst (process_alerts example_lib True
          ([[(''objectId'', VStr ''ZTF21abc''), (''candid'', VStr ''17'')]]
             @ [(''objectId'', VStr ''ZTF21xyz'')] # [])
          Map.empty)
       = fst (process_alerts example_lib True
                [[(''objectId'', VStr ''ZTF21abc''), (''candid'', VStr ''17'')]] Map.empty)"
proof -
  have h: "\<not> py_in ''candid'' [(''objectId'', VStr ''ZTF21xyz'')]"
    by (simp add: py_in_def)
  have b1: "py_in ''objectId'' [(''objectId'', VStr ''ZTF21abc''), (''candid'', VStr ''17'')]"
    and b2: "py_in ''candid'' [(''objectId'', VStr ''ZTF21abc''), (''candid'', VStr ''17'')]"
    and o: "py_in ''objectId'' [(''objectId'', VStr ''ZTF21xyz'')]"
    by (simp_all add: py_in_def)
  have b: "\<forall>a \<in> set [[(''objectId'', VStr ''ZTF21abc''), (''candid'', VStr ''17'')]].
             py_in ''objectId'' a \<and> py_in ''candid'' a"
    using b1 b2 by simp
  note t = process_alerts_requires_candid [OF h, of example_lib
      "[[(''objectId'', VStr ''ZTF21abc''), (''candid'', VStr ''17'')]]" "[]" Map.empty]
  from t have t1: "fst (process_alerts example_lib True
          ([[(''objectId'', VStr ''ZTF21abc''), (''candid'', VStr ''17'')]]
             @ [(''objectId'', VStr ''ZTF21xyz'')] # [])
          Map.empty)
       = fst (process_alerts example_lib True
                [[(''objectId'', VStr ''ZTF21abc''), (''candid'', VStr ''17'')]] Map.empty)"
    by (rule conjunct1)
  from t b o have t2: "snd (process_alerts example_lib True
          ([[(''objectId'', VStr ''ZTF21abc''), (''candid'', VStr ''17'')]]
             @ [(''objectId'', VStr ''ZTF21xyz'')] # [])
          Map.empty)
       = Inl (KeyError ''candid'')"
    by (elim conjE impE) (rule conjI)
  from h b1 b2 o t1 t2 show ?thesis by (intro conjI)
qed

section \<open>Reading one lightcurve file\<close>

text \<open>
  C6, as amended. \<^verbatim>\<open>load_single_lightcurve\<close> returns \<^verbatim>\<open>None\<close> exactly when the
  file is missing or \<^verbatim>\<open>pd.read_csv\<close> raises \<^verbatim>\<open>EmptyDataError\<close> on it; it returns the
  table when the file parses; every other exception of \<^verbatim>\<open>pd.read_csv\<close> reaches the
  caller.
\<close>

theorem load_single_lightcurve_absent:
  "(load_single_lightcurve L files objectId = Inr None
      \<longleftrightarrow> files (get_lightcurve_file L objectId) = None
          \<or> (\<exists>file. files (get_lightcurve_file L objectId) = Some file
                \<and> read_csv L file = Inl EmptyDataError))
   \<and> (load_single_lightcurve L files objectId = Inl e
      \<longleftrightarrow> e \<noteq> EmptyDataError
          \<and> (\<exists>file. files (get_lightcurve_file L objectId) = Some file
                \<and> read_csv L file = Inl e))
   \<and> (load_single_lightcurve L files objectId = Inr (Some lightcurve)
      \<longleftrightarrow> (\<exists>file. files (get_lightcurve_file L objectId) = Some file
                \<and> read_csv L file = Inr lightcurve))"
  by (auto simp: load_single_lightcurve_def split: option.splits sum.splits)

theorem load_single_lightcurve_absent_witness:
  "load_single_lightcurve example_lib [''ZTF21abc.csv'' \<mapsto> Inl EmptyDataError]
     (VStr ''ZTF21abc'') = Inr None
   \<and> load_single_lightcurve example_lib Map.empty (VStr ''ZTF21abc'') = Inr None"
  using load_single_lightcurve_absent
    [of example_lib "[''ZTF21abc.csv'' \<mapsto> Inl EmptyDataError]" "VStr ''ZTF21abc''"]
    load_single_lightcurve_absent [of example_lib Map.empty "VStr ''ZTF21abc''"]
  by (simp add: example_lib_def example_path_def)

text \<open>
  C6 as stated fails: a file on which \<^verbatim>\<open>pd.read_csv\<close> raises \<^verbatim>\<open>ParserError\<close> (rows
  with more fields than the header) makes \<^verbatim>\<open>load_single_lightcurve\<close> raise it.
\<close>

theorem load_single_lightcurve_malformed:
  "load_single_lightcurve example_lib [''ZTF21abc.csv'' \<mapsto> Inl ParserError]
     (VStr ''ZTF21abc'') = Inl ParserError"
  by (simp add: load_single_lightcurve_def example_lib_def example_path_def)

section \<open>Merging a loaded lightcurve into its target\<close>

lemma backfill_coordinates_keeps:
  "backfill_coordinates L I t = Inr t' \<Longrightarrow>
     updated t' = updated t \<and> lasair_lightcurve t' = lasair_lightcurve t"
  by (auto simp: backfill_coordinates_def update_coordinates_def split: if_splits sum.splits option.splits)

lemma backfill_coordinates_returns:
  "coord t \<noteq> None \<or> (''ra'' \<in> set (columns I) \<and> ''dec'' \<in> set (columns I)) \<Longrightarrow>
     \<exists>t'. backfill_coordinates L I t = Inr t'"
  by (auto simp: backfill_coordinates_def get_column_def split: option.splits)

lemma backfill_coordinates_raises:
  "coord t = None \<Longrightarrow> ''ra'' \<notin> set (columns I) \<Longrightarrow>
     backfill_coordinates L I t = Inl (KeyError ''ra'')"
  by (simp add: backfill_coordinates_def get_column_def)

lemma load_loop_skip:
  assumes "load_single_lightcurve L files objectId = Inr (Some I)"
    and "map_of (target_lookup st) objectId = Some t"
    and "lasair_lightcurve t = Some E"
    and "len_frame I \<le> len_frame E"
  shows "load_loop L files (objectId # rest) st =
           load_loop L files rest (st\<lparr>skipped := skipped st @ [objectId]\<rparr>)"
  using assms by simp

lemma load_loop_accept:
  assumes "load_single_lightcurve L files objectId = Inr (Some I)"
    and "map_of (target_lookup st) objectId = Some t"
    and "lasair_lightcurve t = Some E"
    and "len_frame E < len_frame I"
    and "backfill_coordinates L I (t\<lparr>updated := True\<rparr>) = Inr t2"
  shows "load_loop L files (objectId # rest) st =
           load_loop L files rest
             (st\<lparr>target_lookup := AList.update objectId (add_lightcurve I t2) (target_lookup st),
                 loaded := loaded st @ [objectId]\<rparr>)"
  using assms by simp

lemma load_loop_first:
  assumes "load_single_lightcurve L files objectId = Inr (Some I)"
    and "map_of (target_lookup st) objectId = Some t"
    and "lasair_lightcurve t = None"
    and "backfill_coordinates L I t = Inr t2"
  shows "load_loop L files (objectId # rest) st =
           load_loop L files rest
             (st\<lparr>target_lookup := AList.update objectId (add_lightcurve I t2) (target_lookup st),
                 loaded := loaded st @ [objectId]\<rparr>)"
  using assms by simp

text \<open>
  C1, as amended. For a target that has a lightcurve \<open>E\<close> and an incoming lightcurve
  \<open>I\<close>, \<^verbatim>\<open>load_target_lightcurves\<close> keeps \<open>E\<close>, leaves the target as it is and
  lists the object as skipped whenever \<open>len(I) \<le> len(E)\<close>, equal lengths included; it
  installs \<open>I\<close>, sets \<^verbatim>\<open>updated\<close> and lists the object as loaded when
  \<open>len(I) > len(E)\<close> (the target having coordinates, or \<open>I\<close> its ra and dec columns).
\<close>

theorem load_target_lightcurves_merge:
  assumes "load_single_lightcurve L files objectId = Inr (Some I)"
    and "map_of lookup objectId = Some t"
    and "lasair_lightcurve t = Some E"
  shows "(len_frame I \<le> len_frame E \<longrightarrow>
            load_target_lightcurves L files lookup (Some [objectId])
              = Inr \<lparr>target_lookup = lookup, loaded = [], skipped = [objectId], missing = []\<rparr>)
       \<and> (len_frame E < len_frame I
            \<and> (coord t \<noteq> None \<or> (''ra'' \<in> set (columns I) \<and> ''dec'' \<in> set (columns I))) \<longrightarrow>
            (\<exists>st t'. load_target_lightcurves L files lookup (Some [objectId]) = Inr st
               \<and> loaded st = [objectId] \<and> skipped st = [] \<and> missing st = []
               \<and> map_of (target_lookup st) objectId = Some t'
               \<and> lasair_lightcurve t' = Some I \<and> updated t' = True))"
proof (intro conjI impI)
  assume "len_frame I \<le> len_frame E"
  with assms show "load_target_lightcurves L files lookup (Some [objectId])
              = Inr \<lparr>target_lookup = lookup, loaded = [], skipped = [objectId], missing = []\<rparr>"
    by (simp add: load_target_lightcurves_def)
next
  assume a: "len_frame E < len_frame I
            \<and> (coord t \<noteq> None \<or> (''ra'' \<in> set (columns I) \<and> ''dec'' \<in> set (columns I)))"
  then obtain t2 where t2: "backfill_coordinates L I (t\<lparr>updated := True\<rparr>) = Inr t2"
    using backfill_coordinates_returns [of "t\<lparr>updated := True\<rparr>" I L] by auto
  from backfill_coordinates_keeps [OF t2] have "updated t2 = True" by simp
  with assms a t2 show "\<exists>st t'. load_target_lightcurves L files lookup (Some [objectId]) = Inr st
               \<and> loaded st = [objectId] \<and> skipped st = [] \<and> missing st = []
               \<and> map_of (target_lookup st) objectId = Some t'
               \<and> lasair_lightcurve t' = Some I \<and> updated t' = True"
    by (simp add: load_target_lightcurves_def update_conv' add_lightcurve_def)
qed

theorem load_target_lightcurves_merge_witness:
  "load_target_lightcurves example_lib
     [''ZTF21abc.csv'' \<mapsto> Inr (example_frame [2460000, 2460001])]
     [(VStr ''ZTF21abc'', example_target (Some (example_frame [2460000])))]
     (Some [VStr ''ZTF21abc''])
   = Inr \<lparr>target_lookup =
            [(VStr ''ZTF21abc'',
              \<lparr>coord = Some (10, 20), updated = True,
               lasair_lightcurve = Some (example_frame [2460000, 2460001])\<rparr>)],
          loaded = [VStr ''ZTF21abc''], skipped = [], missing = []\<rparr>
   \<and> load_target_lightcurves example_lib
       [''ZTF21abc.csv'' \<mapsto> Inr (example_frame [])]
       [(VStr ''ZTF21abc'', example_target (Some (example_frame [2460000])))]
       (Some [VStr ''ZTF21abc''])
     = Inr \<lparr>target_lookup =
              [(VStr ''ZTF21abc'', example_target (Some (example_frame [2460000])))],
            loaded = [], skipped = [VStr ''ZTF21abc''], missing = []\<rparr>"
  using load_target_lightcurves_merge
    [of example_lib "[''ZTF21abc.csv'' \<mapsto> Inr (example_frame [2460000, 2460001])]"
        "VStr ''ZTF21abc''" "example_frame [2460000, 2460001]"
        "[(VStr ''ZTF21abc'', example_target (Some (example_frame [2460000])))]"
        "example_target (Some (example_frame [2460000]))" "example_frame [2460000]"]
    load_target_lightcurves_merge
    [of example_lib "[''ZTF21abc.csv'' \<mapsto> Inr (example_frame [])]"
        "VStr ''ZTF21abc''" "example_frame []"
        "[(VStr ''ZTF21abc'', example_target (Some (example_frame [2460000])))]"
        "example_target (Some (example_frame [2460000]))" "example_frame [2460000]"]
  by (simp add: load_target_lightcurves_def load_single_lightcurve_def example_lib_def
      example_path_def example_target_def len_frame_def example_frame_def
      backfill_coordinates_def add_lightcurve_def)

text \<open>
  C1 as stated fails at equal lengths: with one cached row and one incoming row (another
  one), the cached table stays, the target is not marked updated and the object is
  listed as skipped, not loaded.
\<close>

theorem load_target_lightcurves_equal_length:
  "len_frame (example_frame [2460001]) = len_frame (example_frame [2460000])
   \<and> example_frame [2460001] \<noteq> example_frame [2460000]
   \<and> load_target_lightcurves example_lib
       [''ZTF21abc.csv'' \<mapsto> Inr (example_frame [2460001])]
       [(VStr ''ZTF21abc'', example_target (Some (example_frame [2460000])))]
       (Some [VStr ''ZTF21abc''])
     = Inr \<lparr>target_lookup =
              [(VStr ''ZTF21abc'',
                \<lparr>coord = Some (10, 20), updated = False,
                 lasair_lightcurve = Some (example_frame [2460000])\<rparr>)],
            loaded = [], skipped = [VStr ''ZTF21abc''], missing = []\<rparr>"
  by (simp add: load_target_lightcurves_def load_single_lightcurve_def example_lib_def
      example_path_def example_target_def len_frame_def example_frame_def)

text \<open>
  C2, as amended. For a target with no lightcurve yet, \<^verbatim>\<open>load_target_lightcurves\<close>
  installs the incoming rows whatever their number and lists the object as loaded (the
  target having coordinates, or the incoming table its ra and dec columns); the target's
  \<^verbatim>\<open>updated\<close> flag is left as it was.
\<close>

theorem load_target_lightcurves_first_data:
  assumes "load_single_lightcurve L files objectId = Inr (Some I)"
    and "map_of lookup objectId = Some t"
    and "lasair_lightcurve t = None"
    and "coord t \<noteq> None \<or> (''ra'' \<in> set (columns I) \<and> ''dec'' \<in> set (columns I))"
  shows "\<exists>st t'. load_target_lightcurves L files lookup (Some [objectId]) = Inr st
               \<and> loaded st = [objectId] \<and> skipped st = [] \<and> missing st = []
               \<and> map_of (target_lookup st) objectId = Some t'
               \<and> lasair_lightcurve t' = Some I \<and> updated t' = updated t"
proof -
  obtain t2 where t2: "backfill_coordinates L I t = Inr t2"
    using backfill_coordinates_returns [OF assms(4), of L] by auto
  from backfill_coordinates_keeps [OF t2] have "updated t2 = updated t" by simp
  with assms t2 show ?thesis
    by (simp add: load_target_lightcurves_def update_conv' add_lightcurve_def)
qed

theorem load_target_lightcurves_first_data_witness:
  "load_target_lightcurves example_lib
     [''ZTF21abc.csv'' \<mapsto> Inr (example_frame [2460000])]
     [(VStr ''ZTF21abc'', \<lparr>coord = None, updated = True, lasair_lightcurve = None\<rparr>)]
     (Some [VStr ''ZTF21abc''])
   = Inr \<lparr>target_lookup =
            [(VStr ''ZTF21abc'',
              \<lparr>coord = Some (10, 20), updated = True,
               lasair_lightcurve = Some (example_frame [2460000])\<rparr>)],
          loaded = [VStr ''ZTF21abc''], skipped = [], missing = []\<rparr>"
  using load_target_lightcurves_first_data
    [of example_lib "[''ZTF21abc.csv'' \<mapsto> Inr (example_frame [2460000])]"
        "VStr ''ZTF21abc''" "example_frame [2460000]"
        "[(VStr ''ZTF21abc'', \<lparr>coord = None, updated = True, lasair_lightcurve = None\<rparr>)]"
        "\<lparr>coord = None, updated = True, lasair_lightcurve = None\<rparr>"]
  by (simp add: load_target_lightcurves_def load_single_lightcurve_def example_lib_def
      example_path_def len_frame_def example_frame_def backfill_coordinates_def
      add_lightcurve_def get_column_def dropna_def py_get_def example_coords_def
      example_average_def update_coordinates_def)

text \<open>
  C2 as stated fails: a target with no lightcurve and \<^verbatim>\<open>updated\<close> unset, loading a
  table of no rows, gets the table and its \<^verbatim>\<open>updated\<close> flag stays unset.
\<close>

theorem load_target_lightcurves_first_data_not_updated:
  "load_target_lightcurves example_lib
     [''ZTF21abc.csv'' \<mapsto> Inr (example_frame [])]
     [(VStr ''ZTF21abc'', example_target None)]
     (Some [VStr ''ZTF21abc''])
   = Inr \<lparr>target_lookup =
            [(VStr ''ZTF21abc'',
              \<lparr>coord = Some (10, 20), updated = False,
               lasair_lightcurve = Some (example_frame [])\<rparr>)],
          loaded = [VStr ''ZTF21abc''], skipped = [], missing = []\<rparr>"
  by (simp add: load_target_lightcurves_def load_single_lightcurve_def example_lib_def
      example_path_def example_target_def len_frame_def example_frame_def
      backfill_coordinates_def add_lightcurve_def)

section \<open>The coordinate backfill\<close>

lemma process_empty_lightcurve:
  "process_lasair_lightcurve example_lib (empty_lightcurve (VStr ''ZTF21abc''))
     = Inr \<lparr>columns = [''objectId'', ''jd'', ''mjd''], rows = []\<rparr>"
  by (simp add: process_lasair_lightcurve_def empty_lightcurve_def DataFrame_def pd_concat_def
      set_column_def first_seen_def add_column_def empty_frame_def sort_frame_def example_lib_def)

text \<open>
  C5. The claim holds of the source's intent and fails on the code: the reads
  \<^verbatim>\<open>lightcurve["ra"]\<close> and \<^verbatim>\<open>lightcurve["dec"]\<close> stand before the \<^verbatim>\<open>try\<close>. An object
  for which the service has no candidates gets a file with the columns objectId, jd and
  mjd; loading it into a target without coordinates raises \<^verbatim>\<open>KeyError('ra')\<close> out of
  \<^verbatim>\<open>load_target_lightcurves\<close>.
\<close>

theorem load_target_lightcurves_backfill_raises:
  "perform_lightcurve_queries example_lib example_manager Map.empty [VStr ''ZTF21abc''] 25
     = Inr \<lparr>success = [VStr ''ZTF21abc''], failed = [],
            lc_files = [''ZTF21abc.csv'' \<mapsto>
                          Inr \<lparr>columns = [''objectId'', ''jd'', ''mjd''], rows = []\<rparr>],
            requests = [[VStr ''ZTF21abc'']]\<rparr>
   \<and> load_target_lightcurves example_lib
       [''ZTF21abc.csv'' \<mapsto> Inr \<lparr>columns = [''objectId'', ''jd'', ''mjd''], rows = []\<rparr>]
       [(VStr ''ZTF21abc'', \<lparr>coord = None, updated = False, lasair_lightcurve = None\<rparr>)]
       None
     = Inl (KeyError ''ra'')"
proof -
  have "perform_lightcurve_queries example_lib example_manager Map.empty [VStr ''ZTF21abc''] 25
     = Inr \<lparr>success = [VStr ''ZTF21abc''], failed = [],
            lc_files = [''ZTF21abc.csv'' \<mapsto>
                          Inr \<lparr>columns = [''objectId'', ''jd'', ''mjd''], rows = []\<rparr>],
            requests = [[VStr ''ZTF21abc'']]\<rparr>"
    using process_empty_lightcurve
    by (simp add: perform_lightcurve_queries_def example_manager_def initial_state_def
        example_lib_def all_answered_def empty_lightcurve_def example_path_def
        chunk_list.simps)
  moreover have "load_target_lightcurves example_lib
       [''ZTF21abc.csv'' \<mapsto> Inr \<lparr>columns = [''objectId'', ''jd'', ''mjd''], rows = []\<rparr>]
       [(VStr ''ZTF21abc'', \<lparr>coord = None, updated = False, lasair_lightcurve = None\<rparr>)]
       None
     = Inl (KeyError ''ra'')"
    by (simp add: load_target_lightcurves_def load_single_lightcurve_def example_lib_def
        example_path_def backfill_coordinates_def get_column_def)
  ultimately show ?thesis by (rule conjI)
qed

section \<open>Candidate identifiers of a processed lightcurve\<close>














section \<open>The loop over the chunks\<close>

lemma concat_chunk_list:
  "concat (chunk_list l chunk_size) = (if chunk_size = 0 then [] else l)"
  by (induction l chunk_size rule: chunk_list.induct) (simp add: chunk_list.simps [of l chunk_size for l chunk_size])

lemma process_returns_objectId:
  "process_lasair_lightcurve L lc = Inr df \<Longrightarrow> lc_objectId lc \<noteq> None"
  by (auto simp: process_lasair_lightcurve_def split: option.splits)

lemma store_lightcurves_returns:
  "\<forall>lc \<in> set lcs. \<not> isl (process_lasair_lightcurve L lc) \<Longrightarrow>
     \<exists>st'. store_lightcurves L lcs st = Inr st'"
proof (induction lcs arbitrary: st)
  case Nil
  then show ?case by simp
next
  case (Cons lc lcs)
  then obtain df where df: "process_lasair_lightcurve L lc = Inr df"
    by (cases "process_lasair_lightcurve L lc") auto
  with process_returns_objectId [OF df] Cons show ?case
    by (auto split: option.splits)
qed

lemma store_lightcurves_effect:
  "store_lightcurves L lcs st = Inr st' \<Longrightarrow>
     failed st' = failed st \<and> requests st' = requests st
     \<and> success st' = success st @ map (\<lambda>lc. the (lc_objectId lc)) lcs"
proof (induction lcs arbitrary: st)
  case Nil
  then show ?case by simp
next
  case (Cons lc lcs)
  then show ?case
    by (auto split: option.splits sum.splits)
qed

lemma store_lightcurves_success:
  "store_lightcurves L lcs st = Inr st' \<Longrightarrow>
     success st' = success st @ List.map_filter lc_objectId lcs"
proof (induction lcs arbitrary: st)
  case Nil
  then show ?case by (simp add: List.map_filter_simps)
next
  case (Cons lc lcs)
  then show ?case
    by (auto simp: List.map_filter_simps split: option.splits sum.splits)
qed

lemma query_chunks_closed:
  "F < int (length (failed st)) \<Longrightarrow> query_chunks L F chunks st = Inr st"
  by (cases chunks) simp_all

lemma query_chunks_raised:
  "\<not> F < int (length (failed st)) \<Longrightarrow> lightcurves L (length (requests st)) c = Inl e \<Longrightarrow>
     query_chunks L F (c # chunks) st =
       (if is_Exception e
        then query_chunks L F chunks
               (st\<lparr>requests := requests st @ [c], failed := failed st @ c\<rparr>)
        else Inl e)"
  by (simp add: Let_def)

lemma query_chunks_answered:
  "\<not> F < int (length (failed st)) \<Longrightarrow> lightcurves L (length (requests st)) c = Inr lcs \<Longrightarrow>
     query_chunks L F (c # chunks) st =
       (case store_lightcurves L lcs (st\<lparr>requests := requests st @ [c]\<rparr>) of
          Inl e \<Rightarrow> Inl e
        | Inr st2 \<Rightarrow> query_chunks L F chunks st2)"
  by (simp add: Let_def)

lemma query_chunks_append:
  "query_chunks L F (cs1 @ cs2) st =
     (case query_chunks L F cs1 st of Inl e \<Rightarrow> Inl e | Inr st' \<Rightarrow> query_chunks L F cs2 st')"
proof (induction cs1 arbitrary: st)
  case Nil
  then show ?case by simp
next
  case (Cons c cs1)
  show ?case
  proof (cases "F < int (length (failed st))")
    case True
    then show ?thesis by (simp add: query_chunks_closed)
  next
    case False
    with Cons show ?thesis
      by (simp add: Let_def split: option.splits sum.splits)
  qed
qed

lemma query_chunks_requests:
  "query_chunks L F chunks st = Inr st' \<Longrightarrow>
     \<exists>k \<le> length chunks. requests st' = requests st @ take k chunks"
proof (induction chunks arbitrary: st)
  case Nil
  then show ?case by simp
next
  case (Cons c chunks)
  show ?case
  proof (cases "F < int (length (failed st))")
    case True
    with Cons.prems have "st' = st" by simp
    then show ?thesis by (intro exI [of _ 0]) simp
  next
    case False
    note nobreak = this
    show ?thesis
    proof (cases "lightcurves L (length (requests st)) c")
      case (Inl e)
      from Cons.prems query_chunks_raised [OF nobreak Inl, of chunks]
      have "query_chunks L F chunks (st\<lparr>requests := requests st @ [c], failed := failed st @ c\<rparr>) = Inr st'"
        by (simp del: query_chunks.simps split: if_splits)
      from Cons.IH [OF this] obtain k where "k \<le> length chunks"
        "requests st' = (requests st @ [c]) @ take k chunks" by auto
      then show ?thesis by (intro exI [of _ "Suc k"]) simp
    next
      case (Inr lcs)
      with Cons.prems nobreak obtain st2 where
        s: "store_lightcurves L lcs (st\<lparr>requests := requests st @ [c]\<rparr>) = Inr st2"
        and q: "query_chunks L F chunks st2 = Inr st'"
        by (auto simp: query_chunks_answered split: sum.splits)
      from store_lightcurves_effect [OF s] have "requests st2 = requests st @ [c]" by simp
      with Cons.IH [OF q] obtain k where "k \<le> length chunks"
        "requests st' = (requests st @ [c]) @ take k chunks" by auto
      then show ?thesis by (intro exI [of _ "Suc k"]) simp
    qed
  qed
qed

lemma store_lightcurves_within:
  assumes "store_lightcurves L lcs st = Inr st'"
    and "\<forall>lc \<in> set lcs. \<forall>objectId. lc_objectId lc = Some objectId \<longrightarrow> objectId \<in> set chunk"
  shows "\<exists>A. set (success st') = set (success st) \<union> A \<and> A \<subseteq> set chunk"
using assms proof (induction lcs arbitrary: st)
  case Nil
  then show ?case by auto
next
  case (Cons lc lcs)
  from Cons.prems(1) obtain objectId df where o: "lc_objectId lc = Some objectId"
    and q: "store_lightcurves L lcs
              (st\<lparr>lc_files := (lc_files st)(get_lightcurve_file L objectId \<mapsto> to_csv L df),
                  success := success st @ [objectId]\<rparr>) = Inr st'"
    by (auto split: option.splits sum.splits)
  from Cons.prems(2) o have m: "objectId \<in> set chunk" by simp
  from Cons.IH [OF q] Cons.prems(2) obtain A where
    "set (success st') = set (success st @ [objectId]) \<union> A" "A \<subseteq> set chunk" by auto
  with m show ?case by (intro exI [of _ "insert objectId A"]) auto
qed

lemma query_chunks_failed:
  "query_chunks L F chunks st = Inr st' \<Longrightarrow>
     set (failed st') \<subseteq> set (failed st) \<union> set (concat chunks)"
proof (induction chunks arbitrary: st)
  case Nil
  then show ?case by simp
next
  case (Cons c chunks)
  show ?case
  proof (cases "F < int (length (failed st))")
    case True
    with Cons.prems show ?thesis by simp
  next
    case False
    note nobreak = this
    show ?thesis
    proof (cases "lightcurves L (length (requests st)) c")
      case (Inl e)
      from Cons.prems query_chunks_raised [OF nobreak Inl, of chunks]
      have "query_chunks L F chunks (st\<lparr>requests := requests st @ [c], failed := failed st @ c\<rparr>) = Inr st'"
        by (simp del: query_chunks.simps split: if_splits)
      from Cons.IH [OF this] show ?thesis by auto
    next
      case (Inr lcs)
      with Cons.prems nobreak obtain st2 where
        s: "store_lightcurves L lcs (st\<lparr>requests := requests st @ [c]\<rparr>) = Inr st2"
        and q: "query_chunks L F chunks st2 = Inr st'"
        by (auto simp: query_chunks_answered split: sum.splits)
      from store_lightcurves_effect [OF s] have "failed st2 = failed st" by simp
      with Cons.IH [OF q] show ?thesis by auto
    qed
  qed
qed

lemma query_chunks_partition:
  assumes "query_chunks L F chunks st = Inr st'"
    and "answers_within L"
  shows "\<exists>A B. set (success st') = set (success st) \<union> A
           \<and> set (failed st') = set (failed st) \<union> B
           \<and> A \<union> B \<subseteq> set (concat chunks)
           \<and> (distinct (concat chunks) \<longrightarrow> A \<inter> B = {})"
using assms(1) proof (induction chunks arbitrary: st)
  case Nil
  then show ?case by auto
next
  case (Cons c chunks)
  show ?case
  proof (cases "F < int (length (failed st))")
    case True
    with Cons.prems have "st' = st" by simp
    then show ?thesis by (intro exI [of _ "{}"]) simp
  next
    case False
    note nobreak = this
    show ?thesis
    proof (cases "lightcurves L (length (requests st)) c")
      case (Inl e)
      from Cons.prems query_chunks_raised [OF nobreak Inl, of chunks]
      have "query_chunks L F chunks (st\<lparr>requests := requests st @ [c], failed := failed st @ c\<rparr>) = Inr st'"
        by (simp del: query_chunks.simps split: if_splits)
      from Cons.IH [OF this] obtain A B where
        ab: "set (success st') = set (success st) \<union> A"
          "set (failed st') = set (failed st) \<union> set c \<union> B"
          "A \<union> B \<subseteq> set (concat chunks)"
          "distinct (concat chunks) \<longrightarrow> A \<inter> B = {}"
        by auto
      show ?thesis
        by (rule exI [of _ A], rule exI [of _ "set c \<union> B"]) (use ab in auto)
    next
      case (Inr lcs)
      with Cons.prems nobreak obtain st2 where
        s: "store_lightcurves L lcs (st\<lparr>requests := requests st @ [c]\<rparr>) = Inr st2"
        and q: "query_chunks L F chunks st2 = Inr st'"
        by (auto simp: query_chunks_answered split: sum.splits)
      from assms(2) Inr
      have w: "\<forall>lc \<in> set lcs. \<forall>objectId. lc_objectId lc = Some objectId \<longrightarrow> objectId \<in> set c"
        unfolding answers_within_def by blast
      from store_lightcurves_within [OF s w] obtain A0 where
        a0: "set (success st2) = set (success st) \<union> A0" "A0 \<subseteq> set c" by auto
      from store_lightcurves_effect [OF s] have f2: "failed st2 = failed st" by simp
      from Cons.IH [OF q] obtain A B where
        ab: "set (success st') = set (success st2) \<union> A"
          "set (failed st') = set (failed st2) \<union> B"
          "A \<union> B \<subseteq> set (concat chunks)"
          "distinct (concat chunks) \<longrightarrow> A \<inter> B = {}"
        by auto
      show ?thesis
        by (rule exI [of _ "A0 \<union> A"], rule exI [of _ B]) (use ab a0 f2 in auto)
    qed
  qed
qed

text \<open>
  The whole run of the loop, when every request that raises raises an \<^verbatim>\<open>Exception\<close>
  and every returned item is processed: the loop returns, having requested the first
  \<open>k\<close> chunks; it stops before the end of the list only with more than \<open>F\<close> ids
  failed, and not before that happens; the two lists have grown by the failed chunks
  and the answered ids of those \<open>k\<close> requests.
\<close>

lemma query_chunks_run:
  assumes "answers_processed L" and "raises_exceptions L"
  shows "\<exists>st' k. query_chunks L F chunks st = Inr st' \<and> k \<le> length chunks
           \<and> requests st' = requests st @ take k chunks
           \<and> failed st' = failed st @ failed_chunks L (length (requests st)) (take k chunks)
           \<and> success st' = success st @ answered_ids L (length (requests st)) (take k chunks)
           \<and> (k < length chunks \<longrightarrow> F < int (length (failed st')))
           \<and> (\<forall>j<k. int (length (failed st
                  @ failed_chunks L (length (requests st)) (take j chunks))) \<le> F)"
proof (induction chunks arbitrary: st)
  case Nil
  show ?case by simp
next
  case (Cons c chunks)
  let ?r = "length (requests st)"
  show ?case
  proof (cases "F < int (length (failed st))")
    case True
    then show ?thesis
      by (intro exI [of _ st] exI [of _ 0]) (simp add: query_chunks_closed)
  next
    case False
    note nobreak = this
    show ?thesis
    proof (cases "lightcurves L ?r c")
      case (Inl e)
      with assms(2) have e: "is_Exception e"
        unfolding raises_exceptions_def by blast
      let ?st1 = "st\<lparr>requests := requests st @ [c], failed := failed st @ c\<rparr>"
      from Cons.IH [of ?st1] obtain st' k where
        ih: "query_chunks L F chunks ?st1 = Inr st'" "k \<le> length chunks"
          "requests st' = (requests st @ [c]) @ take k chunks"
          "failed st' = (failed st @ c) @ failed_chunks L (Suc ?r) (take k chunks)"
          "success st' = success st @ answered_ids L (Suc ?r) (take k chunks)"
          "k < length chunks \<longrightarrow> F < int (length (failed st'))"
          "\<forall>j<k. int (length ((failed st @ c) @ failed_chunks L (Suc ?r) (take j chunks))) \<le> F"
        by auto
      have run: "query_chunks L F (c # chunks) st = Inr st'"
        using query_chunks_raised [OF nobreak Inl, of chunks] e ih(1) by simp
      have early: "\<forall>j<Suc k. int (length (failed st
                     @ failed_chunks L ?r (take j (c # chunks)))) \<le> F"
      proof (intro allI impI)
        fix j assume "j < Suc k"
        show "int (length (failed st @ failed_chunks L ?r (take j (c # chunks)))) \<le> F"
        proof (cases j)
          case 0
          with nobreak show ?thesis by simp
        next
          case (Suc j')
          with \<open>j < Suc k\<close> ih(7) Inl show ?thesis by simp
        qed
      qed
      show ?thesis
        by (rule exI [of _ st'], rule exI [of _ "Suc k"]) (use run ih Inl early in simp)
    next
      case (Inr lcs)
      let ?st1 = "st\<lparr>requests := requests st @ [c]\<rparr>"
      from assms(1) Inr have "\<forall>lc \<in> set lcs. \<not> isl (process_lasair_lightcurve L lc)"
        unfolding answers_processed_def by blast
      from store_lightcurves_returns [OF this]
      obtain st2 where s: "store_lightcurves L lcs ?st1 = Inr st2" by blast
      from store_lightcurves_effect [OF s] store_lightcurves_success [OF s]
      have st2: "failed st2 = failed st" "requests st2 = requests st @ [c]"
        "success st2 = success st @ List.map_filter lc_objectId lcs"
        by simp_all
      from Cons.IH [of st2] st2 obtain st' k where
        ih: "query_chunks L F chunks st2 = Inr st'" "k \<le> length chunks"
          "requests st' = (requests st @ [c]) @ take k chunks"
          "failed st' = failed st @ failed_chunks L (Suc ?r) (take k chunks)"
          "success st' = (success st @ List.map_filter lc_objectId lcs)
                           @ answered_ids L (Suc ?r) (take k chunks)"
          "k < length chunks \<longrightarrow> F < int (length (failed st'))"
          "\<forall>j<k. int (length (failed st @ failed_chunks L (Suc ?r) (take j chunks))) \<le> F"
        by auto
      have run: "query_chunks L F (c # chunks) st = Inr st'"
        using query_chunks_answered [OF nobreak Inr, of chunks] s ih(1) by simp
      have early: "\<forall>j<Suc k. int (length (failed st
                     @ failed_chunks L ?r (take j (c # chunks)))) \<le> F"
      proof (intro allI impI)
        fix j assume "j < Suc k"
        show "int (length (failed st @ failed_chunks L ?r (take j (c # chunks)))) \<le> F"
        proof (cases j)
          case 0
          with nobreak show ?thesis by simp
        next
          case (Suc j')
          with \<open>j < Suc k\<close> ih(7) Inr show ?thesis by simp
        qed
      qed
      show ?thesis
        by (rule exI [of _ st'], rule exI [of _ "Suc k"]) (use run ih Inr early in simp)
    qed
  qed
qed

lemma process_any_empty_lightcurve:
  "process_lasair_lightcurve example_lib (empty_lightcurve objectId) = Inr empty_table"
  by (simp add: process_lasair_lightcurve_def empty_lightcurve_def DataFrame_def pd_concat_def
      set_column_def first_seen_def add_column_def empty_frame_def sort_frame_def example_lib_def
      empty_table_def)

lemma mark_detection_remote: "mark_detection (L\<lparr>lightcurves := x\<rparr>) = mark_detection L"
  by (rule ext) (simp add: mark_detection_def)

lemma sort_frame_remote: "sort_frame (L\<lparr>lightcurves := x\<rparr>) = sort_frame L"
  by (intro ext) (simp add: sort_frame_def)

lemma process_remote:
  "process_lasair_lightcurve (L\<lparr>lightcurves := x\<rparr>) lc = process_lasair_lightcurve L lc"
  by (simp add: process_lasair_lightcurve_def mark_detection_remote sort_frame_remote Let_def
      cong: option.case_cong sum.case_cong if_cong)

lemma process_other_libs [simp]:
  "process_lasair_lightcurve flaky_lib lc = process_lasair_lightcurve example_lib lc"
  "process_lasair_lightcurve raising_lib lc = process_lasair_lightcurve example_lib lc"
  "process_lasair_lightcurve wandering_lib lc = process_lasair_lightcurve example_lib lc"
  "process_lasair_lightcurve nameless_lib lc = process_lasair_lightcurve example_lib lc"
  by (simp_all add: flaky_lib_def raising_lib_def wandering_lib_def nameless_lib_def
      process_remote)

lemma objectId_empty_lightcurve: "lc_objectId (empty_lightcurve objectId) = Some objectId"
  by (simp add: empty_lightcurve_def)

lemmas perform_example_simps = objectId_empty_lightcurve
  perform_lightcurve_queries_def example_manager_def initial_state_def
  all_answered_def all_raise_def first_answered_def answers_other_def answers_nameless_def
  example_path_def chunk_list.simps process_any_empty_lightcurve Let_def

lemma libs_fields [simp]:
  "lightcurves example_lib = all_answered" "lightcurves flaky_lib = first_answered"
  "lightcurves raising_lib = all_raise" "lightcurves wandering_lib = answers_other"
  "lightcurves nameless_lib = answers_nameless"
  "get_lightcurve_file example_lib = example_path" "get_lightcurve_file flaky_lib = example_path"
  "get_lightcurve_file raising_lib = example_path" "get_lightcurve_file wandering_lib = example_path"
  "get_lightcurve_file nameless_lib = example_path"
  "to_csv example_lib = Inr" "to_csv flaky_lib = Inr"
  "to_csv raising_lib = Inr" "to_csv wandering_lib = Inr"
  "to_csv nameless_lib = Inr"
  by (simp_all add: example_lib_def flaky_lib_def raising_lib_def wandering_lib_def nameless_lib_def)

lemma answers_within_flaky: "answers_within flaky_lib"
  by (auto simp: answers_within_def first_answered_def empty_lightcurve_def split: if_splits)

lemma raises_exceptions_flaky: "raises_exceptions flaky_lib"
  by (auto simp: raises_exceptions_def first_answered_def split: if_splits)

lemma answers_processed_flaky: "answers_processed flaky_lib"
  by (auto simp: answers_processed_def first_answered_def process_any_empty_lightcurve split: if_splits)

text \<open>
  C3, as amended. When \<^verbatim>\<open>perform_lightcurve_queries\<close> returns, every id on the failed
  list is a requested id. When the remote service returns only ids of the chunk asked
  for, every id on the succeeded list is a requested id as well; when moreover the
  requested ids are pairwise distinct, no id is on both lists. (The chunk size is
  positive.)
\<close>

theorem perform_lightcurve_queries_partition:
  assumes "perform_lightcurve_queries L self files objectId_list chunk_size = Inr st"
    and "0 < chunk_size"
  shows "set (failed st) \<subseteq> set objectId_list
       \<and> (answers_within L \<longrightarrow> set (success st) \<subseteq> set objectId_list)
       \<and> (answers_within L \<and> distinct objectId_list \<longrightarrow> set (success st) \<inter> set (failed st) = {})"
proof -
  let ?chunks = "chunk_list objectId_list chunk_size"
  from assms(1) have q: "query_chunks L (max_failed_queries self) ?chunks (initial_state files) = Inr st"
    by (auto simp: perform_lightcurve_queries_def split: if_splits)
  from assms(2) have c: "concat ?chunks = objectId_list"
    by (simp add: concat_chunk_list)
  from query_chunks_failed [OF q] c have "set (failed st) \<subseteq> set objectId_list"
    by (simp add: initial_state_def)
  moreover
  { assume w: "answers_within L"
    from query_chunks_partition [OF q w] c obtain A B where
      ab: "set (success st) = A" "set (failed st) = B" "A \<union> B \<subseteq> set objectId_list"
        "distinct objectId_list \<longrightarrow> A \<inter> B = {}"
      by (auto simp: initial_state_def)
    then have "set (success st) \<subseteq> set objectId_list"
      "distinct objectId_list \<longrightarrow> set (success st) \<inter> set (failed st) = {}"
      by auto }
  ultimately show ?thesis by blast
qed

theorem perform_lightcurve_queries_partition_witness:
  "perform_lightcurve_queries flaky_lib example_manager Map.empty
     [VStr ''ZTF1'', VStr ''ZTF2''] 1
   = Inr \<lparr>success = [VStr ''ZTF1''], failed = [VStr ''ZTF2''],
          lc_files = [''ZTF1.csv'' \<mapsto> Inr empty_table],
          requests = [[VStr ''ZTF1''], [VStr ''ZTF2'']]\<rparr>
   \<and> answers_within flaky_lib
   \<and> distinct [VStr ''ZTF1'', VStr ''ZTF2'']
   \<and> set [VStr ''ZTF1''] \<inter> set [VStr ''ZTF2''] = {}
   \<and> set [VStr ''ZTF1''] \<subseteq> set [VStr ''ZTF1'', VStr ''ZTF2'']
   \<and> set [VStr ''ZTF2''] \<subseteq> set [VStr ''ZTF1'', VStr ''ZTF2'']"
proof -
  have e: "perform_lightcurve_queries flaky_lib example_manager Map.empty
             [VStr ''ZTF1'', VStr ''ZTF2''] 1
           = Inr \<lparr>success = [VStr ''ZTF1''], failed = [VStr ''ZTF2''],
                  lc_files = [''ZTF1.csv'' \<mapsto> Inr empty_table],
                  requests = [[VStr ''ZTF1''], [VStr ''ZTF2'']]\<rparr>"
    by (simp add: perform_example_simps)
  have d: "distinct [VStr ''ZTF1'', VStr ''ZTF2'']" by simp
  have n: "0 < (1::nat)" by simp
  from perform_lightcurve_queries_partition [OF e n] answers_within_flaky d e
  show ?thesis by simp
qed

text \<open>
  C3 as stated fails: a service that answers with another object's id puts an id that
  was not requested on the succeeded list; and an id requested twice, answered the first
  time and failing the second, is on both lists.
\<close>

theorem perform_lightcurve_queries_not_a_partition:
  "perform_lightcurve_queries wandering_lib example_manager Map.empty [VStr ''ZTF21abc''] 25
     = Inr \<lparr>success = [VStr ''ZTF00other''], failed = [],
            lc_files = [''ZTF00other.csv'' \<mapsto> Inr empty_table],
            requests = [[VStr ''ZTF21abc'']]\<rparr>
   \<and> perform_lightcurve_queries flaky_lib example_manager Map.empty
       [VStr ''ZTF21abc'', VStr ''ZTF21abc''] 1
     = Inr \<lparr>success = [VStr ''ZTF21abc''], failed = [VStr ''ZTF21abc''],
            lc_files = [''ZTF21abc.csv'' \<mapsto> Inr empty_table],
            requests = [[VStr ''ZTF21abc''], [VStr ''ZTF21abc'']]\<rparr>"
  by (simp add: perform_example_simps)

text \<open>
  C4, as amended. Once more than \<^verbatim>\<open>max_failed_queries\<close> ids are on the failed list,
  \<^verbatim>\<open>perform_lightcurve_queries\<close> sends no further request and returns the lists as they
  stand: the requests sent are a prefix of the chunks gone through, and the remaining
  chunks add no id to either list. An id of a remaining chunk is on neither list when the
  requested ids are pairwise distinct and the service returns only ids of the chunk asked
  for. (There is a client token and the chunk size is positive.)
\<close>

theorem perform_lightcurve_queries_circuit_breaker:
  assumes "client_token self \<noteq> None"
    and "0 < chunk_size"
    and "chunk_list objectId_list chunk_size = attempted @ remaining"
    and "query_chunks L (max_failed_queries self) attempted (initial_state files) = Inr st"
    and "max_failed_queries self < int (length (failed st))"
  shows "perform_lightcurve_queries L self files objectId_list chunk_size = Inr st
       \<and> (\<exists>k \<le> length attempted. requests st = take k attempted)
       \<and> (answers_within L \<and> distinct objectId_list \<longrightarrow>
            set (concat remaining) \<inter> (set (success st) \<union> set (failed st)) = {})"
proof -
  from assms(1,3,4) query_chunks_closed [OF assms(5), of L remaining]
  have p: "perform_lightcurve_queries L self files objectId_list chunk_size = Inr st"
    by (simp add: perform_lightcurve_queries_def query_chunks_append)
  from query_chunks_requests [OF assms(4)]
  have r: "\<exists>k \<le> length attempted. requests st = take k attempted"
    by (simp add: initial_state_def)
  from assms(2,3) have c: "concat attempted @ concat remaining = objectId_list"
    using concat_chunk_list [of objectId_list chunk_size] by simp
  { assume w: "answers_within L" and d: "distinct objectId_list"
    from query_chunks_partition [OF assms(4) w] obtain A B where
      ab: "set (success st) = A" "set (failed st) = B" "A \<union> B \<subseteq> set (concat attempted)"
      by (auto simp: initial_state_def)
    from d c have "set (concat attempted) \<inter> set (concat remaining) = {}"
      by (metis distinct_append)
    with ab have "set (concat remaining) \<inter> (set (success st) \<union> set (failed st)) = {}"
      by auto }
  with p r show ?thesis by blast
qed

theorem perform_lightcurve_queries_circuit_breaker_witness:
  "perform_lightcurve_queries flaky_lib
     \<lparr>client_token = Some ''token'', max_failed_queries = 1\<rparr> Map.empty seven_ids 3
   = Inr breaker_state
   \<and> requests breaker_state
       = [[VStr ''ZTF1'', VStr ''ZTF2'', VStr ''ZTF3''],
          [VStr ''ZTF4'', VStr ''ZTF5'', VStr ''ZTF6'']]
   \<and> set (concat [[VStr ''ZTF7'']])
         \<inter> (set (success breaker_state) \<union> set (failed breaker_state)) = {}"
proof -
  let ?self = "\<lparr>client_token = Some ''token'', max_failed_queries = 1\<rparr>"
  let ?attempted = "[[VStr ''ZTF1'', VStr ''ZTF2'', VStr ''ZTF3''],
                     [VStr ''ZTF4'', VStr ''ZTF5'', VStr ''ZTF6'']]"
  have t: "client_token ?self \<noteq> None" by simp
  have n: "0 < (3::nat)" by simp
  have c: "chunk_list seven_ids 3 = ?attempted @ [[VStr ''ZTF7'']]"
    by (simp add: seven_ids_def chunk_list.simps)
  have q: "query_chunks flaky_lib (max_failed_queries ?self) ?attempted
             (initial_state Map.empty) = Inr breaker_state"
    by (simp add: perform_example_simps breaker_state_def)
  have f: "max_failed_queries ?self < int (length (failed breaker_state))"
    by (simp add: breaker_state_def)
  have d: "distinct seven_ids" by (simp add: seven_ids_def)
  from perform_lightcurve_queries_circuit_breaker [OF t n c q f] answers_within_flaky d
  show ?thesis by (simp add: breaker_state_def)
qed

text \<open>
  C4 as stated fails on its last part: with the ids ZTF1, ZTF2, ZTF1, chunks of one id,
  \<^verbatim>\<open>max_failed_queries = 0\<close> and a service that raises, the first request fails, the
  other two chunks are not attempted, and ZTF1, the id of the third chunk, is on the
  failed list.
\<close>

theorem perform_lightcurve_queries_unattempted_listed:
  "chunk_list [VStr ''ZTF1'', VStr ''ZTF2'', VStr ''ZTF1''] 1
     = [[VStr ''ZTF1''], [VStr ''ZTF2''], [VStr ''ZTF1'']]
   \<and> perform_lightcurve_queries raising_lib
       \<lparr>client_token = Some ''token'', max_failed_queries = 0\<rparr> Map.empty
       [VStr ''ZTF1'', VStr ''ZTF2'', VStr ''ZTF1''] 1
     = Inr \<lparr>success = [], failed = [VStr ''ZTF1''], lc_files = Map.empty,
            requests = [[VStr ''ZTF1'']]\<rparr>"
  by (simp add: perform_example_simps)

text \<open>
  C8, as amended. \<^verbatim>\<open>perform_lightcurve_queries\<close> raises \<^verbatim>\<open>ValueError\<close> when the
  manager has no client token. With a token and a positive chunk size, when whatever a
  request raises is an \<^verbatim>\<open>Exception\<close> and every item the service returns is processed
  without an exception, the call returns: it has requested the chunks in order, all of
  them or up to the first moment at which more than \<^verbatim>\<open>max_failed_queries\<close> ids had
  failed; the failed list is made of the chunks whose request raised, each whole and in
  order, and the succeeded list of the ids of the items returned.
\<close>

theorem perform_lightcurve_queries_returns:
  "(client_token self = None \<longrightarrow>
      perform_lightcurve_queries L self files objectId_list chunk_size = Inl ValueError)
   \<and> (client_token self \<noteq> None \<and> 0 < chunk_size
        \<and> answers_processed L \<and> raises_exceptions L \<longrightarrow>
        (\<exists>st k. perform_lightcurve_queries L self files objectId_list chunk_size = Inr st
           \<and> k \<le> length (chunk_list objectId_list chunk_size)
           \<and> requests st = take k (chunk_list objectId_list chunk_size)
           \<and> failed st = failed_chunks L 0 (take k (chunk_list objectId_list chunk_size))
           \<and> success st = answered_ids L 0 (take k (chunk_list objectId_list chunk_size))
           \<and> (k < length (chunk_list objectId_list chunk_size)
                \<longrightarrow> max_failed_queries self < int (length (failed st)))
           \<and> (\<forall>j<k. int (length (failed_chunks L 0
                              (take j (chunk_list objectId_list chunk_size))))
                        \<le> max_failed_queries self)))"
proof (intro conjI impI)
  assume "client_token self = None"
  then show "perform_lightcurve_queries L self files objectId_list chunk_size = Inl ValueError"
    by (simp add: perform_lightcurve_queries_def)
next
  let ?chunks = "chunk_list objectId_list chunk_size"
  assume a: "client_token self \<noteq> None \<and> 0 < chunk_size
               \<and> answers_processed L \<and> raises_exceptions L"
  then have p: "answers_processed L" and r: "raises_exceptions L" by simp_all
  from query_chunks_run [OF p r, of "max_failed_queries self" ?chunks "initial_state files"]
  obtain st k where
    "query_chunks L (max_failed_queries self) ?chunks (initial_state files) = Inr st"
    "k \<le> length ?chunks" "requests st = take k ?chunks"
    "failed st = failed_chunks L 0 (take k ?chunks)"
    "success st = answered_ids L 0 (take k ?chunks)"
    "k < length ?chunks \<longrightarrow> max_failed_queries self < int (length (failed st))"
    "\<forall>j<k. int (length (failed_chunks L 0 (take j ?chunks))) \<le> max_failed_queries self"
    by (auto simp: initial_state_def)
  with a show "\<exists>st k. perform_lightcurve_queries L self files objectId_list chunk_size = Inr st
           \<and> k \<le> length ?chunks
           \<and> requests st = take k ?chunks
           \<and> failed st = failed_chunks L 0 (take k ?chunks)
           \<and> success st = answered_ids L 0 (take k ?chunks)
           \<and> (k < length ?chunks \<longrightarrow> max_failed_queries self < int (length (failed st)))
           \<and> (\<forall>j<k. int (length (failed_chunks L 0 (take j ?chunks)))
                        \<le> max_failed_queries self)"
    by (intro exI [of _ st] exI [of _ k]) (simp add: perform_lightcurve_queries_def)
qed

theorem perform_lightcurve_queries_returns_witness:
  "perform_lightcurve_queries flaky_lib \<lparr>client_token = None, max_failed_queries = 10\<rparr>
     Map.empty [VStr ''ZTF1'', VStr ''ZTF2''] 1 = Inl ValueError
   \<and> answers_processed flaky_lib
   \<and> raises_exceptions flaky_lib
   \<and> failed_chunks flaky_lib 0 (chunk_list [VStr ''ZTF1'', VStr ''ZTF2''] 1) = [VStr ''ZTF2'']
   \<and> answered_ids flaky_lib 0 (chunk_list [VStr ''ZTF1'', VStr ''ZTF2''] 1) = [VStr ''ZTF1'']
   \<and> perform_lightcurve_queries flaky_lib example_manager Map.empty
       [VStr ''ZTF1'', VStr ''ZTF2''] 1
     = Inr \<lparr>success = [VStr ''ZTF1''], failed = [VStr ''ZTF2''],
            lc_files = [''ZTF1.csv'' \<mapsto> Inr empty_table],
            requests = [[VStr ''ZTF1''], [VStr ''ZTF2'']]\<rparr>"
proof -
  have v: "perform_lightcurve_queries flaky_lib \<lparr>client_token = None, max_failed_queries = 10\<rparr>
             Map.empty [VStr ''ZTF1'', VStr ''ZTF2''] 1 = Inl ValueError"
    using perform_lightcurve_queries_returns
      [of "\<lparr>client_token = None, max_failed_queries = 10\<rparr>" flaky_lib Map.empty
          "[VStr ''ZTF1'', VStr ''ZTF2'']" 1]
    by simp
  have h: "client_token example_manager \<noteq> None \<and> 0 < (1::nat)
             \<and> answers_processed flaky_lib \<and> raises_exceptions flaky_lib"
    using answers_processed_flaky raises_exceptions_flaky by (simp add: example_manager_def)
  from perform_lightcurve_queries_returns
      [of example_manager flaky_lib Map.empty "[VStr ''ZTF1'', VStr ''ZTF2'']" 1] h
  have "\<exists>st. perform_lightcurve_queries flaky_lib example_manager Map.empty
               [VStr ''ZTF1'', VStr ''ZTF2''] 1 = Inr st"
    by blast
  moreover
  have "perform_lightcurve_queries flaky_lib example_manager Map.empty
          [VStr ''ZTF1'', VStr ''ZTF2''] 1
        = Inr \<lparr>success = [VStr ''ZTF1''], failed = [VStr ''ZTF2''],
               lc_files = [''ZTF1.csv'' \<mapsto> Inr empty_table],
               requests = [[VStr ''ZTF1''], [VStr ''ZTF2'']]\<rparr>"
    by (simp add: perform_example_simps)
  moreover
  have "failed_chunks flaky_lib 0 (chunk_list [VStr ''ZTF1'', VStr ''ZTF2''] 1) = [VStr ''ZTF2'']"
    "answered_ids flaky_lib 0 (chunk_list [VStr ''ZTF1'', VStr ''ZTF2''] 1) = [VStr ''ZTF1'']"
    by (simp_all add: perform_example_simps List.map_filter_simps)
  ultimately show ?thesis using v h by simp
qed

text \<open>
  C8 as stated fails: without a client token the call raises \<^verbatim>\<open>ValueError\<close>, an
  item returned without \<^verbatim>\<open>objectId\<close> makes it raise \<^verbatim>\<open>KeyError\<close>, and a
  \<^verbatim>\<open>KeyboardInterrupt\<close> during a request passes the \<^verbatim>\<open>except Exception\<close> clause.
\<close>

theorem perform_lightcurve_queries_raises:
  "perform_lightcurve_queries example_lib
     \<lparr>client_token = None, max_failed_queries = 10\<rparr> Map.empty [VStr ''ZTF21abc''] 25
     = Inl ValueError
   \<and> perform_lightcurve_queries nameless_lib example_manager Map.empty [VStr ''ZTF21abc''] 25
     = Inl (KeyError ''objectId'')
   \<and> perform_lightcurve_queries interrupted_lib example_manager Map.empty
       [VStr ''ZTF21abc''] 25
     = Inl KeyboardInterrupt"
  by (simp add: perform_example_simps interrupted_lib_def interrupted_def)

end
